theory Spec2Isabelle
  imports Complex_Main "HOL-Library.Word" "HOL-Library.Log_Nat" "HOL-Library.Sublist"
begin

section \<open>Numbers and their renderings\<close>

text \<open>
  The numbers of \<^verbatim>\<open>index.js\<close> are lengths (naturals), clock readings
  and quotients of those. The JavaScript computes them in double precision; the model
  computes the same expressions in exact arithmetic (\<open>nat\<close>, \<open>int\<close>,
  \<open>rat\<close>). Where the code rounds a quotient or a product to a double, its result can
  differ from the exact one at a rounding boundary: in the last digit of a
  \<^verbatim>\<open>toFixed(2)\<close> rendering, or by one in the floor of a product or of the quotient
  of two logarithms. No statement below depends on such a digit. The strings built from
  the numbers are ASCII and are modelled as HOL strings.
\<close>

definition digit_char :: "nat \<Rightarrow> char" where
  "digit_char d = ''0123456789'' ! d"

text \<open>The decimal digits of a natural number, most significant first.\<close>

function show_nat :: "nat \<Rightarrow> string" where
  "show_nat n =
     (if n < 10 then [digit_char n] else show_nat (n div 10) @ [digit_char (n mod 10)])"
  by pat_completeness auto
termination
  by (relation "measure id") auto

declare show_nat.simps [simp del]

text \<open>
  \<^verbatim>\<open>x.toFixed(2)\<close>: with \<open>n\<close> the integer for which \<open>n / 100\<close> is
  closest to \<open>\<bar>x\<bar>\<close> (the larger one on a tie), the digits of \<open>n\<close> with a point
  before the last two, after a minus sign when \<open>x < 0\<close>. \<open>fixed2 n\<close> renders
  \<open>n\<close> hundredths. (From \<open>10 ^ 21\<close> on JavaScript switches to exponent notation;
  sizes and times of this program stay far below.)
\<close>

definition fixed2 :: "nat \<Rightarrow> string" where
  "fixed2 n =
     show_nat (n div 100) @ ''.'' @ [digit_char (n mod 100 div 10), digit_char (n mod 10)]"

definition toFixed2 :: "rat \<Rightarrow> string" where
  "toFixed2 x =
     (if x < 0 then ''-'' @ fixed2 (nat \<lfloor>- x * 100 + 1 / 2\<rfloor>)
      else fixed2 (nat \<lfloor>x * 100 + 1 / 2\<rfloor>))"

text \<open>
  \<^verbatim>\<open>parseFloat(s) + ' ' + ...\<close> for \<open>s\<close> the \<open>toFixed(2)\<close> rendering of a
  number that is not negative: the number is read back and printed in its shortest
  form, which drops the trailing zeros of the fraction, and the point when nothing is
  left behind it.
\<close>

definition parseFloat_str :: "string \<Rightarrow> string" where
  "parseFloat_str s =
     (let t = rev (dropWhile (\<lambda>c. c = CHR ''0'') (rev s))
      in if t \<noteq> [] \<and> last t = CHR ''.'' then butlast t else t)"

text \<open>
  \<^verbatim>\<open>Math.floor(Math.log(bytes) / Math.log(k))\<close> for \<open>bytes > 0\<close>: the floor of
  the quotient of the two logarithms, computed exactly as the integer logarithm to base
  \<open>k\<close> (lemma \<open>floor_log_ln\<close> below relates the two). The quotient of the rounded
  logarithms can reach the next integer for a size just below a high power of \<open>k\<close>,
  beyond the sizes the unit list covers.
\<close>

definition floor_log :: "nat \<Rightarrow> nat \<Rightarrow> nat" where
  "floor_log k n = floorlog k n - 1"

definition sizes :: "string list" where
  "sizes = [''Bytes'', ''KB'', ''MB'', ''GB'']"

text \<open>
  \<^verbatim>\<open>formatBytes\<close>. Every caller passes a length. An index beyond the unit list
  reads \<^verbatim>\<open>undefined\<close>, which the concatenation prints as such.
\<close>

definition formatBytes :: "nat \<Rightarrow> string" where
  "formatBytes bytes =
     (if bytes = 0 then ''0 Bytes''
      else let k = 1024;
               i = floor_log k bytes
           in parseFloat_str (toFixed2 (of_nat bytes / of_nat (k ^ i))) @ '' '' @
              (if i < length sizes then sizes ! i else ''undefined''))"

section \<open>Strings, errors, responses and results\<close>

text \<open>
  \<^verbatim>\<open>testData\<close> is a JavaScript string: a sequence of UTF-16 code units, and
  \<^verbatim>\<open>testData.length\<close> counts code units. \<open>js\<close> embeds an ASCII literal.
\<close>

type_synonym jsstring = "16 word list"

definition js :: "string \<Rightarrow> jsstring" where
  "js s = map of_char s"

text \<open>
  The number of bytes \<^verbatim>\<open>res.send(testData)\<close> puts on the wire for a string: its
  UTF-8 encoding (one byte below U+0080, two below U+0800, four for a surrogate pair,
  three otherwise; an unpaired surrogate is sent as U+FFFD).
\<close>

fun utf8_length :: "jsstring \<Rightarrow> nat" where
  "utf8_length [] = 0"
| "utf8_length [c] = (if c < 0x80 then 1 else if c < 0x800 then 2 else 3)"
| "utf8_length (c # d # cs) =
     (if c < 0x80 then 1 + utf8_length (d # cs)
      else if c < 0x800 then 2 + utf8_length (d # cs)
      else if 0xD800 \<le> c \<and> c < 0xDC00 \<and> 0xDC00 \<le> d \<and> d < 0xE000 then 4 + utf8_length cs
      else 3 + utf8_length (d # cs))"

text \<open>A JavaScript \<^verbatim>\<open>Error\<close> with its message.\<close>

datatype error = Error (message: string)

text \<open>
  What \<^verbatim>\<open>axios.get\<close> resolves with, as far as the program reads it: the response
  headers (names in lower case) and, with \<^verbatim>\<open>responseType: 'arraybuffer'\<close>, the raw
  body bytes.
\<close>

record response =
  headers :: "string \<Rightarrow> string option"
  data :: "8 word list"

record result =
  algorithm :: string
  originalSize :: string
  compressedSize :: string
  compressionRatio :: string
  timeTaken :: string
  savingsInMB :: string

section \<open>The environment and the state of a run\<close>

text \<open>
  What the program does not control is a parameter of the model: the values of
  \<^verbatim>\<open>Math.random()\<close>, the readings of the monotonic clock behind
  \<^verbatim>\<open>process.hrtime\<close> (nanoseconds), the outcome of fetching a remote URL, the ports
  other programs hold, and the outcome of the request to the local server for a port, an
  \<^verbatim>\<open>Accept-Encoding\<close> and a payload (the work of express, the compression
  middleware and axios): the request is answered or fails with an error. Every request
  goes through the one axios client of the module, whose connections outlive an
  invocation of the runner, so the outcome may also depend on the requests the client
  sent before: \<open>local_get\<close> receives their ports. A failed \<^verbatim>\<open>listen\<close> is an \<^verbatim>\<open>'error'\<close> event of the
  server: with no handler registered it ends the process (\<open>Unhandled\<close>); an express
  that hands the error to the \<^verbatim>\<open>listen\<close> callback runs the callback instead
  (\<open>ToCallback\<close>).
\<close>

datatype listen_failure = Unhandled | ToCallback

record env =
  random :: "nat \<Rightarrow> rat"
  hrtime :: "nat \<Rightarrow> nat"
  remote_get :: "string \<Rightarrow> error + jsstring"
  port_taken :: "int \<Rightarrow> bool"
  on_listen_failure :: listen_failure
  local_get :: "int list \<Rightarrow> int \<Rightarrow> string \<Rightarrow> jsstring \<Rightarrow> error + response"

datatype console_line = Log string | ErrorLog string | Table "result list"

text \<open>
  The history of a run: the calls of the provider and of the runner with their arguments,
  the ports passed to \<^verbatim>\<open>app.listen\<close> and the calls of \<^verbatim>\<open>server.close\<close>.
\<close>

datatype event =
    FetchTestData
  | TestCompression string jsstring
  | Listen int
  | Close int

text \<open>
  The state threaded through the program: how many random numbers and clock readings
  were consumed, the ports this process listens on, the ports of the requests the axios
  client of the module has sent, the console and the history.
\<close>

record state =
  randoms :: nat
  clock_reads :: nat
  listening :: "int set"
  client :: "int list"
  console :: "console_line list"
  trace :: "event list"

definition print :: "console_line \<Rightarrow> state \<Rightarrow> state" where
  "print l s = s\<lparr>console := console s @ [l]\<rparr>"

definition record_event :: "event \<Rightarrow> state \<Rightarrow> state" where
  "record_event e s = s\<lparr>trace := trace s @ [e]\<rparr>"

definition math_random :: "env \<Rightarrow> state \<Rightarrow> rat \<times> state" where
  "math_random env s = (random env (randoms s), s\<lparr>randoms := randoms s + 1\<rparr>)"

text \<open>
  \<^verbatim>\<open>process.hrtime()\<close> returns seconds and nanoseconds of the current reading;
  \<^verbatim>\<open>process.hrtime(start)\<close> returns the difference to an earlier one, borrowing a
  second when the nanoseconds would be negative.
\<close>

definition hrtime_now :: "env \<Rightarrow> state \<Rightarrow> (int \<times> int) \<times> state" where
  "hrtime_now env s =
     (let t = int (hrtime env (clock_reads s))
      in ((t div 1000000000, t mod 1000000000), s\<lparr>clock_reads := clock_reads s + 1\<rparr>))"

definition hrtime_since :: "env \<Rightarrow> int \<times> int \<Rightarrow> state \<Rightarrow> (int \<times> int) \<times> state" where
  "hrtime_since env start s =
     (let (now, s') = hrtime_now env s;
          sec = fst now - fst start;
          nsec = snd now - snd start
      in ((if nsec < 0 then sec - 1 else sec, if nsec < 0 then nsec + 1000000000 else nsec), s'))"

section \<open>The test data provider\<close>

definition words :: "jsstring list" where
  "words = map js
     [''the'', ''be'', ''to'', ''of'', ''and'', ''a'', ''in'', ''that'', ''have'', ''I'',
      ''Shakespeare'', ''Hamlet'', ''Macbeth'', ''Romeo'', ''Juliet'', ''Othello'',
      ''wherefore'', ''thou'', ''thy'', ''thee'', ''hast'', ''doth'', ''forsooth'']"

text \<open>\<^verbatim>\<open>words[i]\<close>; outside the array it is \<^verbatim>\<open>undefined\<close>, printed as such.\<close>

definition word_at :: "int \<Rightarrow> jsstring" where
  "word_at i = (if 0 \<le> i \<and> i < int (length words) then words ! nat i else js ''undefined'')"

text \<open>
  One round of the loop of \<^verbatim>\<open>generateCompressedTestData\<close>, reading the random
  values number \<open>n\<close> and \<open>n + 1\<close>: a word and a space are appended, and a line break
  when the second random value is below \<open>0.1\<close>.
\<close>

definition generate_step :: "(nat \<Rightarrow> rat) \<Rightarrow> jsstring \<Rightarrow> nat \<Rightarrow> jsstring" where
  "generate_step rnd result n =
     result @ word_at \<lfloor>rnd n * of_nat (length words)\<rfloor> @ js '' '' @
       (if rnd (n + 1) < 1 / 10 then js [CHR 0x0A] else [])"

text \<open>
  The loop \<^verbatim>\<open>while (result.length < size)\<close>, on the target size \<open>sz\<close>, the
  accumulated string and the number of random values consumed.
\<close>

function generate_loop :: "(nat \<Rightarrow> rat) \<Rightarrow> nat \<Rightarrow> jsstring \<Rightarrow> nat \<Rightarrow> jsstring \<times> nat" where
  "generate_loop rnd sz result n =
     (if length result < sz
      then generate_loop rnd sz (generate_step rnd result n) (n + 2)
      else (result, n))"
  by pat_completeness auto
termination
proof (relation "measure (\<lambda>(rnd, sz, result, n). sz - length result)")
  show "wf (measure (\<lambda>(rnd, sz, result, n). sz - length result))"
    by simp
next
  fix rnd :: "nat \<Rightarrow> rat" and sz :: nat and result :: jsstring and n :: nat
  assume "length result < sz"
  then show "((rnd, sz, generate_step rnd result n, n + 2), rnd, sz, result, n)
             \<in> measure (\<lambda>(rnd, sz, result, n). sz - length result)"
    by (simp add: generate_step_def js_def)
qed

declare generate_loop.simps [simp del]

definition generateCompressedTestData :: "env \<Rightarrow> nat \<Rightarrow> state \<Rightarrow> jsstring \<times> state" where
  "generateCompressedTestData env sz s =
     (let (result, n) = generate_loop (random env) sz [] (randoms s)
      in (result, s\<lparr>randoms := n\<rparr>))"

definition urls :: "string list" where
  "urls = [''https://www.gutenberg.org/files/100/100-0.txt'',
           ''https://www.gutenberg.org/cache/epub/100/pg100.txt'']"

text \<open>
  The loop over the URLs inside the outer \<^verbatim>\<open>try\<close>: the first source that answers
  is returned; after the last one the loop is left and the error is thrown.
\<close>

fun try_urls :: "env \<Rightarrow> string list \<Rightarrow> state \<Rightarrow> (error + jsstring) \<times> state" where
  "try_urls env [] s = (Inl (Error ''All data sources failed''), s)"
| "try_urls env (url # rest) s =
     (case remote_get env url of
        Inr body \<Rightarrow> (Inr body, s)
      | Inl e \<Rightarrow>
          try_urls env rest
            (print (Log (''Failed to fetch from '' @ url @ '', trying next source...'')) s))"

definition fetchTestData :: "env \<Rightarrow> state \<Rightarrow> jsstring \<times> state" where
  "fetchTestData env s =
     (case try_urls env urls (record_event FetchTestData s) of
        (Inr body, s') \<Rightarrow> (body, s')
      | (Inl e, s') \<Rightarrow>
          generateCompressedTestData env (5 * 1024 * 1024)
            (print (ErrorLog (''Error fetching test data: '' @ message e)) s'))"

section \<open>The benchmark runner\<close>

text \<open>
  How the promise returned by \<^verbatim>\<open>testCompression\<close> ends: resolved with a result,
  rejected with an error, or never settled because the failed \<^verbatim>\<open>listen\<close> ended
  the process.
\<close>

datatype outcome =
    is_Resolved: Resolved (the_result: result)
  | is_Rejected: Rejected (the_error: error)
  | is_Crashed: Crashed error

text \<open>
  The ratio \<^verbatim>\<open>((a - b) / a * 100).toFixed(2) + '%'\<close>. For \<open>a = 0\<close> the quotient is
  \<^verbatim>\<open>NaN\<close> (when \<open>b = 0\<close>) or \<^verbatim>\<open>-Infinity\<close>, and \<^verbatim>\<open>toFixed\<close> prints
  those by name.
\<close>

definition ratio_percent :: "nat \<Rightarrow> nat \<Rightarrow> string" where
  "ratio_percent a b =
     (if a = 0 then (if b = 0 then ''NaN'' else ''-Infinity'')
      else toFixed2 ((of_nat a - of_nat b) / of_nat a * 100)) @ ''%''"

text \<open>
  \<^verbatim>\<open>axios.get\<close> on \<^verbatim>\<open>http://localhost:${port}/test\<close>, through the client of the
  module.
\<close>

definition axios_get ::
    "env \<Rightarrow> int \<Rightarrow> string \<Rightarrow> jsstring \<Rightarrow> state \<Rightarrow> (error + response) \<times> state" where
  "axios_get env port algo testData s =
     (local_get env (client s) port algo testData, s\<lparr>client := client s @ [port]\<rparr>)"

text \<open>
  \<^verbatim>\<open>server.close()\<close>: the port is released when this server holds it (\<open>bound\<close>).
\<close>

definition server_close :: "int \<Rightarrow> bool \<Rightarrow> state \<Rightarrow> state" where
  "server_close port bound s =
     record_event (Close port) (if bound then s\<lparr>listening := listening s - {port}\<rparr> else s)"

text \<open>
  The body of the callback passed to \<^verbatim>\<open>app.listen\<close>: the \<^verbatim>\<open>try\<close> with the
  timed request, the \<^verbatim>\<open>catch\<close> that rejects, and the \<^verbatim>\<open>finally\<close> that closes the
  server before the caller, awaiting the promise, goes on.
\<close>

definition listen_callback ::
    "env \<Rightarrow> string \<Rightarrow> jsstring \<Rightarrow> int \<Rightarrow> bool \<Rightarrow> state \<Rightarrow> outcome \<times> state" where
  "listen_callback env algo testData port bound s =
     (let (startTime, s1) = hrtime_now env s;
          s2 = print (Log ([CHR 0x0A] @ ''Testing '' @ algo @ '' compression:'')) s1;
          s3 = print (Log (''Original content size: '' @ formatBytes (length testData))) s2;
          (answer, s3') = axios_get env port algo testData s3
      in case answer of
           Inl e \<Rightarrow>
             (Rejected e, server_close port bound (print (ErrorLog (''Error: '' @ message e)) s3'))
         | Inr response \<Rightarrow>
             (let (endTime, s4) = hrtime_since env startTime s3';
                  duration = toFixed2 (of_int (fst endTime) * 1000 + of_int (snd endTime) / 1000000)
              in (Resolved
                    \<lparr>algorithm =
                       (case headers response ''content-encoding'' of
                          None \<Rightarrow> ''none''
                        | Some v \<Rightarrow> if v = [] then ''none'' else v),
                     originalSize = formatBytes (length testData),
                     compressedSize = formatBytes (length (data response)),
                     compressionRatio = ratio_percent (length testData) (length (data response)),
                     timeTaken = duration @ ''ms'',
                     savingsInMB =
                       toFixed2 ((of_nat (length testData) - of_nat (length (data response)))
                                 / (1024 * 1024)) @ '' MB''\<rparr>,
                  server_close port bound s4)))"

text \<open>
  \<^verbatim>\<open>testCompression\<close>, with \<open>algo\<close> for its parameter \<^verbatim>\<open>algorithm\<close>: one
  port is drawn, \<^verbatim>\<open>app.listen\<close> is called on it, and the callback runs once the
  server listens.
\<close>

definition testCompression :: "env \<Rightarrow> string \<Rightarrow> jsstring \<Rightarrow> state \<Rightarrow> outcome \<times> state" where
  "testCompression env algo testData s =
     (let s0 = record_event (TestCompression algo testData) s;
          (r, s1) = math_random env s0;
          port = 3000 + \<lfloor>r * 1000\<rfloor>;
          s2 = record_event (Listen port) s1
      in if \<not> port_taken env port \<and> port \<notin> listening s2
         then listen_callback env algo testData port True
                (s2\<lparr>listening := insert port (listening s2)\<rparr>)
         else (case on_listen_failure env of
                 Unhandled \<Rightarrow>
                   (Crashed (Error (''listen EADDRINUSE: address already in use :::'' @
                                    show_nat (nat port))), s2)
               | ToCallback \<Rightarrow> listen_callback env algo testData port False s2))"

section \<open>The orchestrator\<close>

text \<open>How \<^verbatim>\<open>compareCompressions\<close> ends: it returns, or the process has ended before.\<close>

datatype exit = Returned | Uncaught error

text \<open>The \<^verbatim>\<open>try\<close> block of \<^verbatim>\<open>compareCompressions\<close> with its \<^verbatim>\<open>catch\<close>.\<close>

definition test_failed :: "error \<Rightarrow> state \<Rightarrow> exit \<times> state" where
  "test_failed e s = (Returned, print (ErrorLog (''Test failed: '' @ message e)) s)"

definition run_tests :: "env \<Rightarrow> jsstring \<Rightarrow> state \<Rightarrow> exit \<times> state" where
  "run_tests env testData s =
     (case testCompression env ''gzip'' testData s of
        (Crashed e, s1) \<Rightarrow> (Uncaught e, s1)
      | (Rejected e, s1) \<Rightarrow> test_failed e s1
      | (Resolved r1, s1) \<Rightarrow>
          (case testCompression env ''deflate'' testData s1 of
             (Crashed e, s2) \<Rightarrow> (Uncaught e, s2)
           | (Rejected e, s2) \<Rightarrow> test_failed e s2
           | (Resolved r2, s2) \<Rightarrow>
               (case testCompression env ''br'' testData s2 of
                  (Crashed e, s3) \<Rightarrow> (Uncaught e, s3)
                | (Rejected e, s3) \<Rightarrow> test_failed e s3
                | (Resolved r3, s3) \<Rightarrow>
                    (Returned,
                     print (Table [r1, r2, r3])
                       (print (Log ([CHR 0x0A] @ ''Final Results:'')) s3)))))"

text \<open>The statements of \<^verbatim>\<open>compareCompressions\<close> before its \<^verbatim>\<open>try\<close> block.\<close>

definition fetch_phase :: "env \<Rightarrow> state \<Rightarrow> jsstring \<times> state" where
  "fetch_phase env s =
     (let (testData, s1) = fetchTestData env (print (Log ''Fetching large test data...'') s);
          s2 = print (Log (''Fetched '' @ formatBytes (length testData) @ '' of test data'')) s1
      in (testData,
          print (Log ([CHR 0x0A] @ ''Testing different compression algorithms...'')) s2))"

definition compareCompressions :: "env \<Rightarrow> state \<Rightarrow> exit \<times> state" where
  "compareCompressions env s =
     (let (testData, s') = fetch_phase env s in run_tests env testData s')"

text \<open>The state in which the program starts.\<close>

definition initial :: state where
  "initial =
     \<lparr>randoms = 0, clock_reads = 0, listening = {}, client = [], console = [], trace = []\<rparr>"

section \<open>Observations on a run\<close>

text \<open>The port an invocation of \<^verbatim>\<open>testCompression\<close> draws in state \<open>s\<close>.\<close>

definition chosen_port :: "env \<Rightarrow> state \<Rightarrow> int" where
  "chosen_port env s = 3000 + \<lfloor>random env (randoms s) * 1000\<rfloor>"

text \<open>
  The runner invocations of a history with their arguments, the ports passed to
  \<^verbatim>\<open>app.listen\<close>, and the tables printed on a console, each in order.
\<close>

fun invocations :: "event list \<Rightarrow> (string \<times> jsstring) list" where
  "invocations [] = []"
| "invocations (TestCompression a d # es) = (a, d) # invocations es"
| "invocations (e # es) = invocations es"

fun listens :: "event list \<Rightarrow> int list" where
  "listens [] = []"
| "listens (Listen p # es) = p # listens es"
| "listens (e # es) = listens es"

fun tables :: "console_line list \<Rightarrow> result list list" where
  "tables [] = []"
| "tables (Table rs # ls) = rs # tables ls"
| "tables (l # ls) = tables ls"

text \<open>
  The three runner invocations of the \<^verbatim>\<open>try\<close> block, each started in the state the
  one before it left.
\<close>

definition gzip_run :: "env \<Rightarrow> jsstring \<Rightarrow> state \<Rightarrow> outcome \<times> state" where
  "gzip_run env testData s = testCompression env ''gzip'' testData s"

definition deflate_run :: "env \<Rightarrow> jsstring \<Rightarrow> state \<Rightarrow> outcome \<times> state" where
  "deflate_run env testData s =
     testCompression env ''deflate'' testData (snd (gzip_run env testData s))"

definition br_run :: "env \<Rightarrow> jsstring \<Rightarrow> state \<Rightarrow> outcome \<times> state" where
  "br_run env testData s =
     testCompression env ''br'' testData (snd (deflate_run env testData s))"

text \<open>A string of decimal digits with one point: an unsigned decimal number.\<close>

definition unsigned_decimal :: "string \<Rightarrow> bool" where
  "unsigned_decimal s =
     (list_all (\<lambda>c. c \<in> set ''0123456789.'') s \<and> count_list s CHR ''.'' = 1)"

section \<open>Sample environments\<close>

text \<open>
  A payload of plain ASCII, the four code units of \<open>caf\<close> followed by U+00E9, which
  UTF-8 encodes in five bytes, and a response body of two bytes.
\<close>

definition sample_text :: jsstring where
  "sample_text = js ''to be or not to be''"

definition cafe :: jsstring where
  "cafe = [0x63, 0x61, 0x66, 0xE9]"

definition two_bytes :: "8 word list" where
  "two_bytes = [0x1F, 0x8B]"

text \<open>
  An environment in which everything works: the first source answers, every port is
  free, the clock advances by 2.5 ms per reading, and the local server answers with the
  requested encoding and a two-byte body.
\<close>

definition env_ok :: env where
  "env_ok =
     \<lparr>random = (\<lambda>n. 0),
      hrtime = (\<lambda>n. 2500000 * n),
      remote_get = (\<lambda>url. Inr sample_text),
      port_taken = (\<lambda>p. False),
      on_listen_failure = Unhandled,
      local_get = (\<lambda>sent port algo testData.
         Inr \<lparr>headers = [''content-encoding'' \<mapsto> algo], data = two_bytes\<rparr>)\<rparr>"

text \<open>The request of the gzip run fails; the other two codecs would be served.\<close>

definition env_gzip_fails :: env where
  "env_gzip_fails =
     env_ok\<lparr>local_get := (\<lambda>sent port algo testData.
        if algo = ''gzip'' then Inl (Error ''socket hang up'')
        else local_get env_ok sent port algo testData)\<rparr>"

text \<open>Port 3000, the one drawn, is held by another program; every other port is free.\<close>

definition env_port_taken :: env where
  "env_port_taken = env_ok\<lparr>port_taken := (\<lambda>p. p = 3000)\<rparr>"

text \<open>No remote source answers.\<close>

definition env_offline :: env where
  "env_offline = env_ok\<lparr>remote_get := (\<lambda>url. Inl (Error ''timeout of 10000ms exceeded''))\<rparr>"


text \<open>No remote source answers and the request of the gzip run fails.\<close>

definition env_offline_gzip_fails :: env where
  "env_offline_gzip_fails =
     env_gzip_fails\<lparr>remote_get := (\<lambda>url. Inl (Error ''timeout of 10000ms exceeded''))\<rparr>"

text \<open>
  A request to a port the client has sent a request to before goes over the connection
  kept from then, which the closed server has ended: the request fails.
\<close>

definition env_stale_connection :: env where
  "env_stale_connection =
     env_ok\<lparr>local_get := (\<lambda>sent port algo testData.
        if port \<in> set sent then Inl (Error ''socket hang up'')
        else local_get env_ok sent port algo testData)\<rparr>"

section \<open>Properties of the size formatter\<close>

lemma floor_rat_numeral:
  "\<lfloor>(numeral a :: rat) / numeral b\<rfloor> = numeral a div numeral b"
  using floor_divide_of_int_eq [of "numeral a" "numeral b", where ?'a = rat] by simp

lemma floor_log_ln:
  "0 < n \<Longrightarrow> int (floor_log 1024 n) = \<lfloor>ln (real n) / ln 1024\<rfloor>"
  by (simp add: floor_log_def floorlog_def log_def)

lemma floor_log_unit_range:
  assumes "1 \<le> bytes" and "bytes < 1024 ^ 4"
  shows "floor_log 1024 bytes < 4"
proof -
  have "floorlog 1024 bytes \<le> 4"
    using assms(2) by (simp add: floorlog_le_iff)
  moreover have "0 < floorlog 1024 bytes"
    using assms(1) by (simp add: floorlog_def)
  ultimately show ?thesis
    by (simp add: floor_log_def)
qed

text \<open>
  Claim C10. \<open>formatBytes 0\<close> is the string \<open>0 Bytes\<close>, and for every
  \<open>bytes\<close> from 1 up to, not including, \<open>1024 ^ 4\<close> the unit index is below the
  length of the four-element unit list, so that the result ends in a space and one of
  \<open>Bytes\<close>, \<open>KB\<close>, \<open>MB\<close>, \<open>GB\<close>.
\<close>

theorem formatBytes_unit_in_range:
  "formatBytes 0 = ''0 Bytes'' \<and>
   (1 \<le> bytes \<and> bytes < 1024 ^ 4 \<longrightarrow>
      floor_log 1024 bytes < length sizes \<and>
      (\<exists>u \<in> set sizes. suffix ('' '' @ u) (formatBytes bytes)))"
proof (intro conjI impI)
  show "formatBytes 0 = ''0 Bytes''"
    by (simp add: formatBytes_def)
next
  assume b: "1 \<le> bytes \<and> bytes < 1024 ^ 4"
  then have i: "floor_log 1024 bytes < 4"
    using floor_log_unit_range by blast
  then show "floor_log 1024 bytes < length sizes"
    by (simp add: sizes_def)
  define i where "i = floor_log 1024 bytes"
  define num where "num = parseFloat_str (toFixed2 (of_nat bytes / of_nat (1024 ^ i)))"
  have fb: "formatBytes bytes = num @ '' '' @ sizes ! i"
    using b i by (simp add: formatBytes_def Let_def i_def num_def sizes_def)
  have "sizes ! i \<in> set sizes"
    using i unfolding i_def by (intro nth_mem) (simp add: sizes_def)
  moreover have "suffix ('' '' @ sizes ! i) (formatBytes bytes)"
    unfolding fb by (rule suffixI [of _ num]) simp
  ultimately show "\<exists>u \<in> set sizes. suffix ('' '' @ u) (formatBytes bytes)"
    by blast
qed

theorem formatBytes_unit_in_range_witness:
  "(1::nat) \<le> 1536 \<and> (1536::nat) < 1024 ^ 4 \<and> formatBytes 1536 = ''1.5 KB'' \<and>
   floor_log 1024 1536 < length sizes \<and>
   (\<exists>u \<in> set sizes. suffix ('' '' @ u) (formatBytes 1536))"
proof -
  have i: "floor_log 1024 1536 = 1"
    by (simp add: floor_log_def compute_floorlog)
  have n: "parseFloat_str (toFixed2 (of_nat 1536 / of_nat (1024 ^ 1))) = ''1.5''"
    by (simp add: toFixed2_def fixed2_def show_nat.simps digit_char_def parseFloat_str_def
        floor_rat_numeral)
  have "formatBytes 1536 = ''1.5 KB''"
    unfolding formatBytes_def Let_def i n by (simp add: sizes_def)
  then show ?thesis
    using formatBytes_unit_in_range [of 1536] by simp
qed

lemma formatBytes_below_1024:
  assumes "0 < n" and "n < 1024"
  shows "formatBytes n = parseFloat_str (toFixed2 (of_nat n)) @ '' Bytes''"
proof -
  have "floorlog 1024 n = 1"
    using assms by (subst compute_floorlog) (simp add: floorlog_eq_zero_iff)
  then have "floor_log 1024 n = 0"
    by (simp add: floor_log_def)
  then show ?thesis
    using assms by (simp add: formatBytes_def sizes_def)
qed

lemma toFixed2_fraction:
  assumes "0 \<le> a" and "0 < b"
  shows "toFixed2 (of_int a / of_int b) = fixed2 (nat ((200 * a + b) div (2 * b)))"
proof -
  have "(of_int a / of_int b :: rat) * 100 + 1 / 2 = of_int (200 * a + b) / of_int (2 * b)"
    using assms by (simp add: field_simps)
  then have "\<lfloor>(of_int a / of_int b :: rat) * 100 + 1 / 2\<rfloor> = (200 * a + b) div (2 * b)"
    by (simp only: floor_divide_of_int_eq)
  moreover have "\<not> (of_int a / of_int b :: rat) < 0"
    using assms by (simp add: not_less)
  ultimately show ?thesis
    by (simp add: toFixed2_def)
qed

lemma fixed2_0: "fixed2 0 = ''0.00''"
  by (simp add: fixed2_def show_nat.simps digit_char_def)

lemma fixed2_200: "fixed2 200 = ''2.00''"
  by (simp add: fixed2_def show_nat.simps digit_char_def)

lemma fixed2_250: "fixed2 250 = ''2.50''"
  by (simp add: fixed2_def show_nat.simps digit_char_def)

lemma fixed2_400: "fixed2 400 = ''4.00''"
  by (simp add: fixed2_def show_nat.simps digit_char_def)

lemma fixed2_1800: "fixed2 1800 = ''18.00''"
  by (simp add: fixed2_def show_nat.simps digit_char_def)

lemma fixed2_5000: "fixed2 5000 = ''50.00''"
  by (simp add: fixed2_def show_nat.simps digit_char_def)

lemma fixed2_6000: "fixed2 6000 = ''60.00''"
  by (simp add: fixed2_def show_nat.simps digit_char_def)

lemma fixed2_8889: "fixed2 8889 = ''88.89''"
  by (simp add: fixed2_def show_nat.simps digit_char_def)

lemma formatBytes_2: "formatBytes 2 = ''2 Bytes''"
proof -
  have "toFixed2 (of_nat 2) = ''2.00''"
    using toFixed2_fraction [of 2 1] by (simp add: fixed2_200)
  then show ?thesis
    by (simp add: formatBytes_below_1024 parseFloat_str_def)
qed

lemma formatBytes_4: "formatBytes 4 = ''4 Bytes''"
proof -
  have "toFixed2 (of_nat 4) = ''4.00''"
    using toFixed2_fraction [of 4 1] by (simp add: fixed2_400)
  then show ?thesis
    by (simp add: formatBytes_below_1024 parseFloat_str_def)
qed

lemma formatBytes_18: "formatBytes 18 = ''18 Bytes''"
proof -
  have "toFixed2 (of_nat 18) = ''18.00''"
    using toFixed2_fraction [of 18 1] by (simp add: fixed2_1800)
  then show ?thesis
    by (simp add: formatBytes_below_1024 parseFloat_str_def)
qed

lemma ratio_4_2: "ratio_percent 4 2 = ''50.00%''"
proof -
  have "((of_nat 4 - of_nat 2) / of_nat 4 * 100 :: rat) = of_int 50 / of_int 1"
    by simp
  then show ?thesis
    unfolding ratio_percent_def using toFixed2_fraction [of 50 1]
    by (simp add: fixed2_5000)
qed

lemma ratio_5_2: "ratio_percent 5 2 = ''60.00%''"
proof -
  have "((of_nat 5 - of_nat 2) / of_nat 5 * 100 :: rat) = of_int 60 / of_int 1"
    by simp
  then show ?thesis
    unfolding ratio_percent_def using toFixed2_fraction [of 60 1]
    by (simp add: fixed2_6000)
qed

lemma ratio_18_2: "ratio_percent 18 2 = ''88.89%''"
proof -
  have "((of_nat 18 - of_nat 2) / of_nat 18 * 100 :: rat) = of_int 800 / of_int 9"
    by simp
  then show ?thesis
    unfolding ratio_percent_def using toFixed2_fraction [of 800 9]
    by (simp add: fixed2_8889)
qed

lemma toFixed2_5_2: "toFixed2 (of_int 5 / of_int 2) = ''2.50''"
  by (subst toFixed2_fraction) (simp_all add: fixed2_250)

lemma toFixed2_16_MB: "toFixed2 (of_int 16 / of_int 1048576) = ''0.00''"
  by (subst toFixed2_fraction) (simp_all add: fixed2_0)

lemma savings_2: "toFixed2 (1 / 524288) = ''0.00''"
  using toFixed2_fraction [of 1 524288] by (simp add: fixed2_0)

lemma savings_16: "toFixed2 ((of_nat 18 - of_nat 2) / (1024 * 1024)) = ''0.00''"
proof -
  have e: "((of_nat 18 - of_nat 2) / (1024 * 1024) :: rat) = of_int 16 / of_int 1048576"
    by simp
  show ?thesis
    by (simp only: e toFixed2_16_MB)
qed

text \<open>
  The rendering of a number that is not negative is an unsigned decimal: no sign, no
  \<^verbatim>\<open>NaN\<close>, no \<^verbatim>\<open>Infinity\<close>.
\<close>

lemma digit_char_digit: "d < 10 \<Longrightarrow> digit_char d \<in> set ''0123456789''"
  unfolding digit_char_def by (rule nth_mem) simp

lemma show_nat_digits: "set (show_nat n) \<subseteq> set ''0123456789''"
proof (induction n rule: show_nat.induct)
  case (1 n)
  show ?case
  proof (cases "n < 10")
    case True
    then show ?thesis
      using digit_char_digit [of n] by (subst show_nat.simps) simp
  next
    case False
    then show ?thesis
      using 1 digit_char_digit [of "n mod 10"] by (subst show_nat.simps) simp
  qed
qed

lemma fixed2_unsigned: "unsigned_decimal (fixed2 n)"
proof -
  have d: "set (show_nat (n div 100)) \<subseteq> set ''0123456789''"
    by (rule show_nat_digits)
  have a: "digit_char (n mod 100 div 10) \<in> set ''0123456789''"
    by (rule digit_char_digit) simp
  have b: "digit_char (n mod 10) \<in> set ''0123456789''"
    by (rule digit_char_digit) simp
  have "CHR ''.'' \<notin> set (show_nat (n div 100))"
    using d by auto
  then have c: "count_list (show_nat (n div 100)) CHR ''.'' = 0"
    by (simp add: count_list_0_iff)
  have l: "list_all (\<lambda>c. c \<in> set ''0123456789.'') (show_nat (n div 100))"
    using d by (auto simp add: list_all_iff)
  show ?thesis
    using a b c l by (auto simp add: unsigned_decimal_def fixed2_def)
qed

lemma toFixed2_unsigned: "0 \<le> x \<Longrightarrow> unsigned_decimal (toFixed2 x)"
  by (simp add: toFixed2_def fixed2_unsigned)

section \<open>Effects of the operations on the state\<close>

lemma invocations_append [simp]: "invocations (xs @ ys) = invocations xs @ invocations ys"
  by (induction xs rule: invocations.induct) simp_all

lemma listens_append [simp]: "listens (xs @ ys) = listens xs @ listens ys"
  by (induction xs rule: listens.induct) simp_all

lemma tables_append [simp]: "tables (xs @ ys) = tables xs @ tables ys"
  by (induction xs rule: tables.induct) simp_all

lemma print_simps [simp]:
  "trace (print l s) = trace s" "listening (print l s) = listening s"
  "client (print l s) = client s"
  "randoms (print l s) = randoms s" "clock_reads (print l s) = clock_reads s"
  "console (print l s) = console s @ [l]"
  by (simp_all add: print_def)

lemma record_event_simps [simp]:
  "trace (record_event e s) = trace s @ [e]" "listening (record_event e s) = listening s"
  "client (record_event e s) = client s"
  "randoms (record_event e s) = randoms s" "clock_reads (record_event e s) = clock_reads s"
  "console (record_event e s) = console s"
  by (simp_all add: record_event_def)

lemma server_close_simps [simp]:
  "trace (server_close p b s) = trace s @ [Close p]"
  "listening (server_close p b s) = (if b then listening s - {p} else listening s)"
  "randoms (server_close p b s) = randoms s" "clock_reads (server_close p b s) = clock_reads s"
  "client (server_close p b s) = client s"
  "console (server_close p b s) = console s"
  by (simp_all add: server_close_def)

lemma hrtime_now_simps [simp]:
  "trace (snd (hrtime_now env s)) = trace s" "listening (snd (hrtime_now env s)) = listening s"
  "client (snd (hrtime_now env s)) = client s"
  "randoms (snd (hrtime_now env s)) = randoms s"
  "clock_reads (snd (hrtime_now env s)) = clock_reads s + 1"
  "console (snd (hrtime_now env s)) = console s"
  by (simp_all add: hrtime_now_def Let_def)

lemma hrtime_since_simps [simp]:
  "trace (snd (hrtime_since env t s)) = trace s" "listening (snd (hrtime_since env t s)) = listening s"
  "client (snd (hrtime_since env t s)) = client s"
  "randoms (snd (hrtime_since env t s)) = randoms s"
  "clock_reads (snd (hrtime_since env t s)) = clock_reads s + 1"
  "console (snd (hrtime_since env t s)) = console s"
  by (simp_all add: hrtime_since_def Let_def case_prod_beta)

lemma axios_get_simps [simp]:
  "fst (axios_get env p a d s) = local_get env (client s) p a d"
  "trace (snd (axios_get env p a d s)) = trace s"
  "listening (snd (axios_get env p a d s)) = listening s"
  "randoms (snd (axios_get env p a d s)) = randoms s"
  "clock_reads (snd (axios_get env p a d s)) = clock_reads s"
  "console (snd (axios_get env p a d s)) = console s"
  "client (snd (axios_get env p a d s)) = client s @ [p]"
  by (simp_all add: axios_get_def)

text \<open>
  The two clock readings of a run give the elapsed time in nanoseconds, whatever the
  borrow: \<^verbatim>\<open>endTime[0] * 1000 + endTime[1] / 1000000\<close> is the difference of the
  readings in milliseconds.
\<close>

lemma hrtime_difference:
  fixes a b :: int
  defines "nsec \<equiv> b mod 1000000000 - a mod 1000000000"
    and "sec \<equiv> b div 1000000000 - a div 1000000000"
  shows "(of_int (if nsec < 0 then sec - 1 else sec) * 1000 +
          of_int (if nsec < 0 then nsec + 1000000000 else nsec) / 1000000 :: rat) =
         of_int (b - a) / 1000000"
proof -
  have "b - a = sec * 1000000000 + nsec"
    unfolding sec_def nsec_def
    using div_mult_mod_eq [of b 1000000000] div_mult_mod_eq [of a 1000000000]
    by (simp add: algebra_simps)
  then have "(of_int (b - a) :: rat) = of_int sec * 1000000000 + of_int nsec"
    by simp
  then show ?thesis
    by (simp add: field_simps)
qed

lemma hrtime_since_duration:
  "(of_int (fst (fst (hrtime_since env (fst (hrtime_now env s0)) s))) * 1000 +
    of_int (snd (fst (hrtime_since env (fst (hrtime_now env s0)) s))) / 1000000 :: rat) =
   of_int (int (hrtime env (clock_reads s)) - int (hrtime env (clock_reads s0))) / 1000000"
  unfolding hrtime_since_def hrtime_now_def Let_def case_prod_beta fst_conv snd_conv
  by (rule hrtime_difference)

section \<open>The callback and the runner\<close>

lemma listen_callback_trace:
  "trace (snd (listen_callback env a d p b s)) = trace s @ [Close p]"
  by (simp add: listen_callback_def Let_def case_prod_beta split: sum.splits)

lemma listen_callback_listening:
  "listening (snd (listen_callback env a d p b s)) = (if b then listening s - {p} else listening s)"
  by (simp add: listen_callback_def Let_def case_prod_beta split: sum.splits)

lemma listen_callback_not_crashed:
  "fst (listen_callback env a d p b s) \<noteq> Crashed e"
  by (simp add: listen_callback_def Let_def case_prod_beta split: sum.splits)

lemma listen_callback_tables:
  "tables (console (snd (listen_callback env a d p b s))) = tables (console s)"
  by (simp add: listen_callback_def Let_def case_prod_beta split: sum.splits)

lemma listen_callback_randoms:
  "randoms (snd (listen_callback env a d p b s)) = randoms s"
  by (simp add: listen_callback_def Let_def case_prod_beta split: sum.splits)

lemma listen_callback_timeTaken:
  assumes "fst (listen_callback env a d p b s) = Resolved r"
  shows "timeTaken r =
     toFixed2 (of_int (int (hrtime env (Suc (clock_reads s))) - int (hrtime env (clock_reads s)))
               / 1000000) @ ''ms''"
  using assms
  by (auto simp add: listen_callback_def Let_def case_prod_beta hrtime_since_duration
      split: sum.splits)

lemma listen_callback_result:
  assumes "fst (listen_callback env a d p b s) = Resolved r"
  shows "\<exists>response. local_get env (client s) p a d = Inr response \<and>
     r = \<lparr>algorithm =
            (case headers response ''content-encoding'' of
               None \<Rightarrow> ''none'' | Some v \<Rightarrow> if v = [] then ''none'' else v),
          originalSize = formatBytes (length d),
          compressedSize = formatBytes (length (data response)),
          compressionRatio = ratio_percent (length d) (length (data response)),
          timeTaken =
            toFixed2 (of_int (int (hrtime env (Suc (clock_reads s))) -
                              int (hrtime env (clock_reads s))) / 1000000) @ ''ms'',
          savingsInMB =
            toFixed2 ((of_nat (length d) - of_nat (length (data response))) / (1024 * 1024))
            @ '' MB''\<rparr>"
  using assms
  by (auto simp add: listen_callback_def Let_def case_prod_beta hrtime_since_duration
      split: sum.splits)

lemma testCompression_trace:
  "trace (snd (testCompression env a d s)) =
     trace s @ [TestCompression a d, Listen (chosen_port env s)] @
       (case fst (testCompression env a d s) of
          Crashed e \<Rightarrow> [] | Rejected e \<Rightarrow> [Close (chosen_port env s)]
        | Resolved r \<Rightarrow> [Close (chosen_port env s)])"
  using listen_callback_not_crashed
  by (auto simp add: testCompression_def math_random_def chosen_port_def Let_def
      listen_callback_trace split: listen_failure.splits outcome.splits)

lemma testCompression_listening:
  "listening (snd (testCompression env a d s)) = listening s"
  by (auto simp add: testCompression_def math_random_def Let_def listen_callback_listening
      split: listen_failure.splits)

lemma testCompression_tables:
  "tables (console (snd (testCompression env a d s))) = tables (console s)"
  by (auto simp add: testCompression_def math_random_def Let_def listen_callback_tables
      split: listen_failure.splits)

lemma testCompression_randoms:
  "randoms (snd (testCompression env a d s)) = randoms s + 1"
  by (auto simp add: testCompression_def math_random_def Let_def listen_callback_randoms
      split: listen_failure.splits)

lemma testCompression_invocations:
  "invocations (trace (snd (testCompression env a d s))) = invocations (trace s) @ [(a, d)]"
  by (simp add: testCompression_trace split: outcome.splits)

lemma listen_callback_client:
  "client (snd (listen_callback env a d p b s)) = client s @ [p]"
  by (simp add: listen_callback_def Let_def case_prod_beta split: sum.splits)

lemma testCompression_client:
  "\<not> is_Crashed (fst (testCompression env a d s)) \<Longrightarrow>
   client (snd (testCompression env a d s)) = client s @ [chosen_port env s]"
  by (auto simp add: testCompression_def math_random_def chosen_port_def Let_def
      case_prod_beta listen_callback_client split: listen_failure.splits)

lemma testCompression_listens:
  "listens (trace (snd (testCompression env a d s))) = listens (trace s) @ [chosen_port env s]"
  by (simp add: testCompression_trace split: outcome.splits)

text \<open>
  Unless the failed \<^verbatim>\<open>listen\<close> ended the process, an invocation of the runner is a
  run of the callback, started with the clock where the invocation found it.
\<close>

lemma testCompression_callback:
  assumes "\<not> is_Crashed (fst (testCompression env a d s))"
  obtains b s' where
    "testCompression env a d s = listen_callback env a d (chosen_port env s) b s'"
    "clock_reads s' = clock_reads s" "client s' = client s"
proof -
  define p where "p = chosen_port env s"
  define s2 where
    "s2 = record_event (Listen p) (snd (math_random env (record_event (TestCompression a d) s)))"
  have c: "clock_reads s2 = clock_reads s" "client s2 = client s"
    by (simp_all add: s2_def math_random_def)
  have tc: "testCompression env a d s =
      (if \<not> port_taken env p \<and> p \<notin> listening s2
       then listen_callback env a d p True (s2\<lparr>listening := insert p (listening s2)\<rparr>)
       else (case on_listen_failure env of
               Unhandled \<Rightarrow>
                 (Crashed (Error (''listen EADDRINUSE: address already in use :::'' @
                                  show_nat (nat p))), s2)
             | ToCallback \<Rightarrow> listen_callback env a d p False s2))"
    by (simp add: testCompression_def Let_def case_prod_beta s2_def p_def chosen_port_def
        math_random_def split: listen_failure.splits)
  show ?thesis
  proof (cases "\<not> port_taken env p \<and> p \<notin> listening s2")
    case True
    then have "testCompression env a d s =
        listen_callback env a d p True (s2\<lparr>listening := insert p (listening s2)\<rparr>)"
      by (auto simp add: tc)
    then show ?thesis
      using that [of True "s2\<lparr>listening := insert p (listening s2)\<rparr>"] c
      unfolding p_def by simp
  next
    case False
    show ?thesis
    proof (cases "on_listen_failure env")
      case Unhandled
      with False have "is_Crashed (fst (testCompression env a d s))"
        by (auto simp add: tc)
      with assms show ?thesis
        by simp
    next
      case ToCallback
      with False have "testCompression env a d s = listen_callback env a d p False s2"
        by (auto simp add: tc)
      then show ?thesis
        using that [of False s2] c unfolding p_def by simp
    qed
  qed
qed

lemma testCompression_timeTaken:
  assumes "fst (testCompression env a d s) = Resolved r"
  shows "timeTaken r =
     toFixed2 (of_int (int (hrtime env (Suc (clock_reads s))) - int (hrtime env (clock_reads s)))
               / 1000000) @ ''ms''"
proof -
  have "\<not> is_Crashed (fst (testCompression env a d s))"
    using assms by simp
  then obtain b s' where
    "testCompression env a d s = listen_callback env a d (chosen_port env s) b s'"
    "clock_reads s' = clock_reads s" "client s' = client s"
    by (rule testCompression_callback)
  then show ?thesis
    using assms listen_callback_timeTaken [of env a d "chosen_port env s" b s' r] by simp
qed

lemma testCompression_timeTaken_unsigned:
  assumes "fst (testCompression env a d s) = Resolved r"
    and "hrtime env (clock_reads s) \<le> hrtime env (Suc (clock_reads s))"
  shows "\<exists>t. timeTaken r = t @ ''ms'' \<and> unsigned_decimal t"
  using testCompression_timeTaken [OF assms(1)] assms(2) toFixed2_unsigned by simp

lemma testCompression_result:
  assumes "fst (testCompression env a d s) = Resolved r"
  shows "\<exists>response. local_get env (client s) (chosen_port env s) a d = Inr response \<and>
     r = \<lparr>algorithm =
            (case headers response ''content-encoding'' of
               None \<Rightarrow> ''none'' | Some v \<Rightarrow> if v = [] then ''none'' else v),
          originalSize = formatBytes (length d),
          compressedSize = formatBytes (length (data response)),
          compressionRatio = ratio_percent (length d) (length (data response)),
          timeTaken =
            toFixed2 (of_int (int (hrtime env (Suc (clock_reads s))) -
                              int (hrtime env (clock_reads s))) / 1000000) @ ''ms'',
          savingsInMB =
            toFixed2 ((of_nat (length d) - of_nat (length (data response))) / (1024 * 1024))
            @ '' MB''\<rparr>"
proof -
  have "\<not> is_Crashed (fst (testCompression env a d s))"
    using assms by simp
  then obtain b s' where
    "testCompression env a d s = listen_callback env a d (chosen_port env s) b s'"
    "clock_reads s' = clock_reads s" "client s' = client s"
    by (rule testCompression_callback)
  then show ?thesis
    using assms listen_callback_result [of env a d "chosen_port env s" b s' r] by simp
qed

lemma testCompression_originalSize:
  assumes "fst (testCompression env a d s) = Resolved r"
  shows "originalSize r = formatBytes (length d)"
  using testCompression_result [OF assms] by auto

lemma testCompression_trace_ex:
  "\<exists>t. trace (snd (testCompression env a d s)) = trace s @ t \<and>
       FetchTestData \<notin> set t \<and> invocations t = [(a, d)]"
  by (cases "fst (testCompression env a d s)") (simp_all add: testCompression_trace)

section \<open>Runs in the sample environments\<close>

lemma length_sample_text: "length sample_text = 18"
  by (simp add: sample_text_def js_def)

lemma length_cafe: "length cafe = 4"
  by (simp add: cafe_def)

lemma utf8_cafe: "utf8_length cafe = 5"
  by (simp add: cafe_def)

lemma length_two_bytes: "length two_bytes = 2"
  by (simp add: two_bytes_def)

lemma duration_2500: "toFixed2 (5 / 2) = ''2.50''"
  using toFixed2_fraction [of 5 2] by (simp add: fixed2_250)

lemma env_ok_elapsed:
  "toFixed2 (of_int (int (hrtime env_ok (Suc k)) - int (hrtime env_ok k)) / 1000000) = ''2.50''"
proof -
  have e: "(of_int (int (hrtime env_ok (Suc k)) - int (hrtime env_ok k)) / 1000000 :: rat) =
      of_int 5 / of_int 2"
    by (simp add: env_ok_def)
  show ?thesis
    by (simp only: e toFixed2_5_2)
qed

lemma env_ok_resolved:
  "is_Resolved (fst (testCompression env_ok algo testData initial))"
  by (simp add: testCompression_def env_ok_def initial_def math_random_def listen_callback_def
      Let_def case_prod_beta)

lemma env_ok_resolved_free:
  assumes "listening s = {}"
  shows "is_Resolved (fst (testCompression env_ok algo testData s))"
  using assms
  by (simp add: testCompression_def env_ok_def math_random_def listen_callback_def
      Let_def case_prod_beta)

lemma env_ok_run:
  assumes "listening s = {}" and "algo \<noteq> []"
  shows "fst (testCompression env_ok algo sample_text s) =
     Resolved \<lparr>algorithm = algo, originalSize = ''18 Bytes'', compressedSize = ''2 Bytes'',
       compressionRatio = ''88.89%'', timeTaken = ''2.50ms'', savingsInMB = ''0.00 MB''\<rparr>"
proof -
  obtain r where r: "fst (testCompression env_ok algo sample_text s) = Resolved r"
    using env_ok_resolved_free [OF assms(1), of algo sample_text]
    by (cases "fst (testCompression env_ok algo sample_text s)") simp_all
  obtain response where
    g: "local_get env_ok (client s) (chosen_port env_ok s) algo sample_text = Inr response" and
    f: "r = \<lparr>algorithm =
            (case headers response ''content-encoding'' of
               None \<Rightarrow> ''none'' | Some v \<Rightarrow> if v = [] then ''none'' else v),
          originalSize = formatBytes (length sample_text),
          compressedSize = formatBytes (length (data response)),
          compressionRatio = ratio_percent (length sample_text) (length (data response)),
          timeTaken =
            toFixed2 (of_int (int (hrtime env_ok (Suc (clock_reads s))) -
                              int (hrtime env_ok (clock_reads s))) / 1000000) @ ''ms'',
          savingsInMB =
            toFixed2 ((of_nat (length sample_text) - of_nat (length (data response)))
                      / (1024 * 1024)) @ '' MB''\<rparr>"
    using testCompression_result [OF r] by blast
  have resp: "response = \<lparr>headers = [''content-encoding'' \<mapsto> algo], data = two_bytes\<rparr>"
    using g by (simp add: env_ok_def)
  have f1: "(case headers response ''content-encoding'' of
               None \<Rightarrow> ''none'' | Some v \<Rightarrow> if v = [] then ''none'' else v) = algo"
    using assms(2) by (simp add: resp)
  have d: "length (data response) = 2"
    by (simp add: resp length_two_bytes)
  have f2: "formatBytes (length sample_text) = ''18 Bytes''"
    by (simp only: length_sample_text formatBytes_18)
  have f3: "formatBytes (length (data response)) = ''2 Bytes''"
    by (simp only: d formatBytes_2)
  have f4: "ratio_percent (length sample_text) (length (data response)) = ''88.89%''"
    by (simp only: d length_sample_text ratio_18_2)
  have f5: "toFixed2 ((of_nat (length sample_text) - of_nat (length (data response)))
                      / (1024 * 1024)) = ''0.00''"
    by (simp only: d length_sample_text savings_16)
  show ?thesis
    unfolding r f f1 f2 f3 f4 f5 env_ok_elapsed by simp
qed


lemma env_offline_resolved:
  assumes "listening s = {}"
  shows "is_Resolved (fst (testCompression env_offline algo testData s))"
  using assms
  by (simp add: testCompression_def env_offline_def env_ok_def math_random_def
      listen_callback_def Let_def case_prod_beta)

lemma port_taken_crash:
  "testCompression env_port_taken ''gzip'' sample_text initial =
     (Crashed (Error ''listen EADDRINUSE: address already in use :::3000''),
      \<lparr>randoms = 1, clock_reads = 0, listening = {}, client = [], console = [],
       trace = [TestCompression ''gzip'' sample_text, Listen 3000]\<rparr>)"
  by (simp add: testCompression_def env_ok_def env_port_taken_def initial_def math_random_def
      record_event_def Let_def case_prod_beta show_nat.simps digit_char_def)

lemma env_gzip_fails_gzip:
  assumes "listening s = {}"
  shows "fst (testCompression env_gzip_fails ''gzip'' d s) = Rejected (Error ''socket hang up'')"
  using assms
  by (simp add: testCompression_def env_gzip_fails_def env_ok_def math_random_def
      listen_callback_def Let_def case_prod_beta)

lemma env_gzip_fails_other:
  assumes "listening s = {}" and "algo \<noteq> ''gzip''"
  shows "is_Resolved (fst (testCompression env_gzip_fails algo d s))"
  using assms
  by (simp add: testCompression_def env_gzip_fails_def env_ok_def math_random_def
      listen_callback_def Let_def case_prod_beta)

lemma env_stale_connection_fresh:
  assumes "listening s = {}" and "client s = []"
  shows "is_Resolved (fst (testCompression env_stale_connection algo d s))"
  using assms
  by (simp add: testCompression_def env_stale_connection_def env_ok_def math_random_def
      listen_callback_def Let_def case_prod_beta)

lemma env_stale_connection_stale:
  assumes "listening s = {}" and "client s = [3000]"
  shows "fst (testCompression env_stale_connection algo d s) =
     Rejected (Error ''socket hang up'')"
  using assms
  by (simp add: testCompression_def env_stale_connection_def env_ok_def math_random_def
      listen_callback_def Let_def case_prod_beta)

lemma env_offline_gzip_fails_gzip:
  assumes "listening s = {}"
  shows "fst (testCompression env_offline_gzip_fails ''gzip'' d s) =
     Rejected (Error ''socket hang up'')"
  using assms
  by (simp add: testCompression_def env_offline_gzip_fails_def env_gzip_fails_def env_ok_def
      math_random_def listen_callback_def Let_def case_prod_beta)

section \<open>Port selection and the listener\<close>

text \<open>
  Claim C2, as the code has it. An invocation of the runner draws one random number and
  passes one port, \<open>3000 + \<lfloor>r * 1000\<rfloor>\<close>, to \<^verbatim>\<open>app.listen\<close>; whatever becomes of the
  bind, no second port is drawn and \<^verbatim>\<open>listen\<close> is not called again.
\<close>

theorem single_listen_attempt:
  "listens (trace (snd (testCompression env algo testData s))) =
     listens (trace s) @ [chosen_port env s] \<and>
   randoms (snd (testCompression env algo testData s)) = randoms s + 1"
  by (simp add: testCompression_listens testCompression_randoms)

theorem single_listen_attempt_witness:
  "listens (trace (snd (testCompression env_port_taken ''gzip'' sample_text initial))) = [3000] \<and>
   randoms (snd (testCompression env_port_taken ''gzip'' sample_text initial)) = 1"
  using single_listen_attempt [of env_port_taken "''gzip''" sample_text initial]
  by (simp add: chosen_port_def env_port_taken_def env_ok_def initial_def)

text \<open>
  Claim C2 as stated fails: the runner does not retry. With port 3000 drawn and held by
  another program, and port 3001 free, the invocation calls \<^verbatim>\<open>listen\<close> once, on 3000,
  and the promise is never settled: the unhandled \<^verbatim>\<open>'error'\<close> event of the server ends
  the process instead of rejecting this codec's run.
\<close>

theorem no_retry_counterexample:
  "port_taken env_port_taken (chosen_port env_port_taken initial) \<and>
   \<not> port_taken env_port_taken 3001 \<and>
   fst (testCompression env_port_taken ''gzip'' sample_text initial) =
     Crashed (Error ''listen EADDRINUSE: address already in use :::3000'') \<and>
   listens (trace (snd (testCompression env_port_taken ''gzip'' sample_text initial))) = [3000]"
  by (simp add: port_taken_crash)
    (simp add: env_port_taken_def env_ok_def chosen_port_def initial_def)

text \<open>
  Claim C3. After an invocation of the runner, however it ended, this process listens on
  the same ports as before it: the listener the invocation bound is bound no more. On
  every path on which the promise is settled (resolved, or rejected after a request
  error) the last thing the invocation does is \<^verbatim>\<open>server.close()\<close> on its port; when the
  bind failed and ended the process, no socket was bound.
\<close>

theorem listener_released:
  "listening (snd (testCompression env algo testData s)) = listening s \<and>
   (\<not> is_Crashed (fst (testCompression env algo testData s)) \<longrightarrow>
      last (trace (snd (testCompression env algo testData s))) = Close (chosen_port env s))"
  by (simp add: testCompression_listening testCompression_trace split: outcome.splits)

theorem listener_released_witness:
  "\<not> is_Crashed (fst (testCompression env_ok ''gzip'' sample_text initial)) \<and>
   listening (snd (testCompression env_ok ''gzip'' sample_text initial)) = {} \<and>
   last (trace (snd (testCompression env_ok ''gzip'' sample_text initial))) = Close 3000"
proof -
  have r: "is_Resolved (fst (testCompression env_ok ''gzip'' sample_text initial))"
    by (rule env_ok_resolved)
  then have c: "\<not> is_Crashed (fst (testCompression env_ok ''gzip'' sample_text initial))"
    by (cases "fst (testCompression env_ok ''gzip'' sample_text initial)") simp_all
  have p: "chosen_port env_ok initial = 3000"
    by (simp add: chosen_port_def env_ok_def initial_def)
  have l: "listening initial = {}"
    by (simp add: initial_def)
  show ?thesis
    using listener_released [of env_ok "''gzip''" sample_text initial] c p l by simp
qed

section \<open>The result of a run\<close>



text \<open>
  Claim C5. The ratio is computed from \<^verbatim>\<open>testData.length\<close>, which counts UTF-16 code
  units, not bytes. For the payload \<open>cafe\<close> (four code units, five bytes in UTF-8) and a
  two-byte response the runner reports an original size of 4 bytes and a ratio of
  50.00%, where the byte length of the payload gives \<open>(5 - 2) / 5\<close>, that is 60.00%.
\<close>

theorem ratio_uses_code_units:
  "fst (testCompression env_ok ''gzip'' cafe initial) =
     Resolved
      \<lparr>algorithm = ''gzip'', originalSize = ''4 Bytes'', compressedSize = ''2 Bytes'',
       compressionRatio = ''50.00%'', timeTaken = ''2.50ms'', savingsInMB = ''0.00 MB''\<rparr> \<and>
   length cafe = 4 \<and> utf8_length cafe = 5 \<and>
   ratio_percent (utf8_length cafe) (length two_bytes) = ''60.00%''"
proof -
  have "fst (testCompression env_ok ''gzip'' cafe initial) =
     Resolved
      \<lparr>algorithm = ''gzip'', originalSize = ''4 Bytes'', compressedSize = ''2 Bytes'',
       compressionRatio = ''50.00%'', timeTaken = ''2.50ms'', savingsInMB = ''0.00 MB''\<rparr>"
    by (simp add: testCompression_def env_ok_def initial_def math_random_def listen_callback_def
        hrtime_now_def hrtime_since_def Let_def case_prod_beta length_cafe length_two_bytes
        formatBytes_4 formatBytes_2 ratio_4_2 duration_2500 savings_2)
  then show ?thesis
    by (simp add: length_cafe utf8_cafe length_two_bytes ratio_5_2)
qed

section \<open>The synthetic payload generator\<close>

lemma generate_step_grows: "length result < length (generate_step rnd result n)"
  by (simp add: generate_step_def js_def)

lemma generate_loop_reaches_size: "sz \<le> length (fst (generate_loop rnd sz result n))"
proof (induction rnd sz result n rule: generate_loop.induct)
  case (1 rnd sz result n)
  show ?case
  proof (cases "length result < sz")
    case True
    then show ?thesis
      using 1 by (subst generate_loop.simps) simp
  next
    case False
    then show ?thesis
      by (subst generate_loop.simps) simp
  qed
qed

text \<open>
  Claim C9. Every round of the loop makes the accumulated string strictly longer (the
  measure of the termination proof of \<open>generate_loop\<close>), and for every positive
  target size the generator returns a string at least that long, hence not empty.
\<close>

theorem generator_reaches_size:
  "length result < length (generate_step rnd result n) \<and>
   (0 < sz \<longrightarrow>
      sz \<le> length (fst (generateCompressedTestData env sz s)) \<and>
      fst (generateCompressedTestData env sz s) \<noteq> [])"
proof -
  have "sz \<le> length (fst (generateCompressedTestData env sz s))"
    using generate_loop_reaches_size [of sz "random env" "[]" "randoms s"]
    by (simp add: generateCompressedTestData_def case_prod_beta)
  then show ?thesis
    using generate_step_grows [of result rnd n] by auto
qed

theorem generator_reaches_size_witness:
  "(0::nat) < 6 \<and>
   fst (generateCompressedTestData env_ok 6 initial) =
     js (''the '' @ [CHR 0x0A] @ ''the '' @ [CHR 0x0A]) \<and>
   (6::nat) \<le> length (fst (generateCompressedTestData env_ok 6 initial)) \<and>
   fst (generateCompressedTestData env_ok 6 initial) \<noteq> []"
proof -
  define line where "line = js (''the '' @ [CHR 0x0A])"
  have len: "length line = 5"
    by (simp add: line_def js_def)
  have w: "word_at 0 = js ''the''"
    by (simp add: word_at_def words_def)
  have step: "generate_step (\<lambda>n. 0) result n = result @ line" for result n
    by (simp add: generate_step_def w line_def js_def)
  have third: "generate_loop (\<lambda>n. 0) 6 (line @ line) k = (line @ line, k)" for k
    by (subst generate_loop.simps) (simp add: len)
  have second: "generate_loop (\<lambda>n. 0) 6 line k = (line @ line, k + 2)" for k
    by (subst generate_loop.simps) (simp add: len step third)
  have "generate_loop (\<lambda>n. 0) 6 [] k = (line @ line, k + 2 + 2)" for k
    by (subst generate_loop.simps) (simp add: step second)
  then have "fst (generateCompressedTestData env_ok 6 initial) = line @ line"
    by (simp add: generateCompressedTestData_def env_ok_def initial_def)
  then have "fst (generateCompressedTestData env_ok 6 initial) =
      js (''the '' @ [CHR 0x0A] @ ''the '' @ [CHR 0x0A])"
    by (simp add: line_def js_def)
  then show ?thesis
    using generator_reaches_size [of "[]" "\<lambda>n. 0" 0 6 env_ok initial] by simp
qed

section \<open>Fetching the test data\<close>

lemma try_urls_all_fail:
  assumes "list_all (\<lambda>url. isl (remote_get env url)) us"
  shows "fst (try_urls env us s) = Inl (Error ''All data sources failed'')"
  using assms
  by (induction us arbitrary: s) (auto split: sum.splits)

lemma try_urls_trace [simp]: "trace (snd (try_urls env us s)) = trace s"
  by (induction us arbitrary: s) (auto split: sum.splits)

lemma try_urls_tables [simp]: "tables (console (snd (try_urls env us s))) = tables (console s)"
  by (induction us arbitrary: s) (auto split: sum.splits)

lemma try_urls_listening [simp]: "listening (snd (try_urls env us s)) = listening s"
  by (induction us arbitrary: s) (auto split: sum.splits)

lemma generate_simps [simp]:
  "trace (snd (generateCompressedTestData env sz s)) = trace s"
  "console (snd (generateCompressedTestData env sz s)) = console s"
  "listening (snd (generateCompressedTestData env sz s)) = listening s"
  by (simp_all add: generateCompressedTestData_def case_prod_beta)

lemma fetchTestData_trace: "trace (snd (fetchTestData env s)) = trace s @ [FetchTestData]"
proof (cases "try_urls env urls (record_event FetchTestData s)")
  case (Pair r s')
  then have "trace s' = trace s @ [FetchTestData]"
    using try_urls_trace [of env urls "record_event FetchTestData s"] by simp
  then show ?thesis
    using Pair by (cases r) (simp_all add: fetchTestData_def)
qed

lemma fetchTestData_tables: "tables (console (snd (fetchTestData env s))) = tables (console s)"
proof (cases "try_urls env urls (record_event FetchTestData s)")
  case (Pair r s')
  then have "tables (console s') = tables (console s)"
    using try_urls_tables [of env urls "record_event FetchTestData s"] by simp
  then show ?thesis
    using Pair by (cases r) (simp_all add: fetchTestData_def)
qed

lemma fetchTestData_fallback:
  assumes "list_all (\<lambda>url. isl (remote_get env url)) urls"
  shows "\<exists>s'. fetchTestData env s = generateCompressedTestData env (5 * 1024 * 1024) s'"
proof (cases "try_urls env urls (record_event FetchTestData s)")
  case (Pair r s')
  then have "r = Inl (Error ''All data sources failed'')"
    using try_urls_all_fail [OF assms, of "record_event FetchTestData s"] by simp
  then show ?thesis
    using Pair by (auto simp add: fetchTestData_def)
qed

lemma fetch_phase_trace: "trace (snd (fetch_phase env s)) = trace s @ [FetchTestData]"
  by (simp add: fetch_phase_def case_prod_beta Let_def fetchTestData_trace)

lemma fetch_phase_tables: "tables (console (snd (fetch_phase env s))) = tables (console s)"
  by (simp add: fetch_phase_def case_prod_beta Let_def fetchTestData_tables)

lemma fetch_phase_payload:
  "fst (fetch_phase env s) =
     fst (fetchTestData env (print (Log ''Fetching large test data...'') s))"
  by (simp add: fetch_phase_def case_prod_beta Let_def)

lemma fetch_phase_invocations:
  "invocations (trace (snd (fetch_phase env s))) = invocations (trace s)"
  by (simp add: fetch_phase_trace)

lemma fetch_phase_listening: "listening (snd (fetch_phase env s)) = listening s"
proof -
  have "listening (snd (fetchTestData env s')) = listening s'" for s'
  proof (cases "try_urls env urls (record_event FetchTestData s')")
    case (Pair r s'')
    then have "listening s'' = listening s'"
      using try_urls_listening [of env urls "record_event FetchTestData s'"] by simp
    then show ?thesis
      using Pair by (cases r) (simp_all add: fetchTestData_def)
  qed
  then show ?thesis
    by (simp add: fetch_phase_def case_prod_beta Let_def)
qed

lemma fetch_phase_env_ok: "fst (fetch_phase env_ok s) = sample_text"
  by (simp add: fetch_phase_def fetchTestData_def urls_def env_ok_def case_prod_beta Let_def)

lemma fetch_phase_env_gzip_fails: "fst (fetch_phase env_gzip_fails s) = sample_text"
  by (simp add: fetch_phase_def fetchTestData_def urls_def env_gzip_fails_def env_ok_def
      case_prod_beta Let_def)

section \<open>The batch\<close>

lemma run_tests_cases:
  "run_tests env d s =
     (case fst (gzip_run env d s) of
        Crashed e \<Rightarrow> (Uncaught e, snd (gzip_run env d s))
      | Rejected e \<Rightarrow> test_failed e (snd (gzip_run env d s))
      | Resolved r1 \<Rightarrow>
          (case fst (deflate_run env d s) of
             Crashed e \<Rightarrow> (Uncaught e, snd (deflate_run env d s))
           | Rejected e \<Rightarrow> test_failed e (snd (deflate_run env d s))
           | Resolved r2 \<Rightarrow>
               (case fst (br_run env d s) of
                  Crashed e \<Rightarrow> (Uncaught e, snd (br_run env d s))
                | Rejected e \<Rightarrow> test_failed e (snd (br_run env d s))
                | Resolved r3 \<Rightarrow>
                    (Returned,
                     print (Table [r1, r2, r3])
                       (print (Log ([CHR 0x0A] @ ''Final Results:'')) (snd (br_run env d s)))))))"
  by (simp add: run_tests_def gzip_run_def deflate_run_def br_run_def
      split: prod.splits outcome.splits)

lemma test_failed_simps [simp]:
  "fst (test_failed e s) = Returned"
  "trace (snd (test_failed e s)) = trace s"
  "tables (console (snd (test_failed e s))) = tables (console s)"
  "console (snd (test_failed e s)) = console s @ [ErrorLog (''Test failed: '' @ message e)]"
  by (simp_all add: test_failed_def)

lemma gzip_run_simps:
  "invocations (trace (snd (gzip_run env d s))) = invocations (trace s) @ [(''gzip'', d)]"
  "tables (console (snd (gzip_run env d s))) = tables (console s)"
  by (simp_all add: gzip_run_def testCompression_invocations testCompression_tables)

lemma deflate_run_simps:
  "invocations (trace (snd (deflate_run env d s))) =
     invocations (trace s) @ [(''gzip'', d), (''deflate'', d)]"
  "tables (console (snd (deflate_run env d s))) = tables (console s)"
  by (simp_all add: deflate_run_def testCompression_invocations testCompression_tables
      gzip_run_simps)

lemma br_run_simps:
  "invocations (trace (snd (br_run env d s))) =
     invocations (trace s) @ [(''gzip'', d), (''deflate'', d), (''br'', d)]"
  "tables (console (snd (br_run env d s))) = tables (console s)"
  by (simp_all add: br_run_def testCompression_invocations testCompression_tables
      deflate_run_simps)

lemma compareCompressions_run_tests:
  "compareCompressions env s0 = run_tests env (fst (fetch_phase env s0)) (snd (fetch_phase env s0))"
  by (simp add: compareCompressions_def case_prod_beta)

lemma all_invoked:
  assumes "is_Resolved (fst (gzip_run env d s))" and "is_Resolved (fst (deflate_run env d s))"
  shows "invocations (trace (snd (run_tests env d s))) =
     invocations (trace s) @ [(''gzip'', d), (''deflate'', d), (''br'', d)]"
  using assms
  by (auto simp add: run_tests_cases br_run_simps split: outcome.splits)

lemma gzip_run_trace_ex:
  "\<exists>t. trace (snd (gzip_run env d s)) = trace s @ t \<and>
       FetchTestData \<notin> set t \<and> invocations t = [(''gzip'', d)]"
  unfolding gzip_run_def by (rule testCompression_trace_ex)

lemma deflate_run_trace_ex:
  "\<exists>t. trace (snd (deflate_run env d s)) = trace s @ t \<and>
       FetchTestData \<notin> set t \<and> invocations t = [(''gzip'', d), (''deflate'', d)]"
proof -
  obtain t1 where t1: "trace (snd (gzip_run env d s)) = trace s @ t1"
      "FetchTestData \<notin> set t1" "invocations t1 = [(''gzip'', d)]"
    using gzip_run_trace_ex by blast
  obtain t2 where t2: "trace (snd (deflate_run env d s)) = trace (snd (gzip_run env d s)) @ t2"
      "FetchTestData \<notin> set t2" "invocations t2 = [(''deflate'', d)]"
    unfolding deflate_run_def using testCompression_trace_ex by blast
  show ?thesis
    using t1 t2 by (intro exI [of _ "t1 @ t2"]) simp
qed

lemma br_run_trace_ex:
  "\<exists>t. trace (snd (br_run env d s)) = trace s @ t \<and>
       FetchTestData \<notin> set t \<and>
       invocations t = [(''gzip'', d), (''deflate'', d), (''br'', d)]"
proof -
  obtain t1 where t1: "trace (snd (deflate_run env d s)) = trace s @ t1"
      "FetchTestData \<notin> set t1" "invocations t1 = [(''gzip'', d), (''deflate'', d)]"
    using deflate_run_trace_ex by blast
  obtain t2 where t2: "trace (snd (br_run env d s)) = trace (snd (deflate_run env d s)) @ t2"
      "FetchTestData \<notin> set t2" "invocations t2 = [(''br'', d)]"
    unfolding br_run_def using testCompression_trace_ex by blast
  show ?thesis
    using t1 t2 by (intro exI [of _ "t1 @ t2"]) simp
qed

lemma run_tests_summary:
  "\<exists>t k T. trace (snd (run_tests env d s)) = trace s @ t \<and>
     FetchTestData \<notin> set t \<and> 1 \<le> k \<and>
     invocations t = map (\<lambda>a. (a, d)) (take k [''gzip'', ''deflate'', ''br'']) \<and>
     tables (console (snd (run_tests env d s))) = tables (console s) @ T \<and>
     list_all (list_all (\<lambda>r. originalSize r = formatBytes (length d))) T"
proof -
  obtain t1 where t1: "trace (snd (gzip_run env d s)) = trace s @ t1"
      "FetchTestData \<notin> set t1" "invocations t1 = [(''gzip'', d)]"
    using gzip_run_trace_ex by blast
  obtain t2 where t2: "trace (snd (deflate_run env d s)) = trace s @ t2"
      "FetchTestData \<notin> set t2" "invocations t2 = [(''gzip'', d), (''deflate'', d)]"
    using deflate_run_trace_ex by blast
  obtain t3 where t3: "trace (snd (br_run env d s)) = trace s @ t3"
      "FetchTestData \<notin> set t3"
      "invocations t3 = [(''gzip'', d), (''deflate'', d), (''br'', d)]"
    using br_run_trace_ex by blast
  show ?thesis
  proof (cases "is_Resolved (fst (gzip_run env d s))")
    case False
    then show ?thesis
      using t1
      by (intro exI [of _ t1] exI [of _ 1] exI [of _ "[]"])
        (auto simp add: run_tests_cases gzip_run_simps split: outcome.splits)
  next
    case g: True
    show ?thesis
    proof (cases "is_Resolved (fst (deflate_run env d s))")
      case False
      then show ?thesis
        using t2 g
        by (intro exI [of _ t2] exI [of _ 2] exI [of _ "[]"])
          (auto simp add: run_tests_cases deflate_run_simps split: outcome.splits)
    next
      case f: True
      show ?thesis
      proof (cases "is_Resolved (fst (br_run env d s))")
        case False
        then show ?thesis
          using t3 g f
          by (intro exI [of _ t3] exI [of _ 3] exI [of _ "[]"])
            (auto simp add: run_tests_cases br_run_simps split: outcome.splits)
      next
        case b: True
        obtain r1 r2 r3 where r:
          "fst (gzip_run env d s) = Resolved r1" "fst (deflate_run env d s) = Resolved r2"
          "fst (br_run env d s) = Resolved r3"
          using g f b by (metis outcome.collapse(1))
        have "originalSize r1 = formatBytes (length d)"
          "originalSize r2 = formatBytes (length d)"
          "originalSize r3 = formatBytes (length d)"
          using r testCompression_originalSize
          unfolding gzip_run_def deflate_run_def br_run_def by blast+
        then show ?thesis
          using t3 r
          by (intro exI [of _ t3] exI [of _ 3] exI [of _ "[[r1, r2, r3]]"])
            (simp add: run_tests_cases br_run_simps)
      qed
    qed
  qed
qed

lemma compareCompressions_summary:
  "\<exists>t k T. trace (snd (compareCompressions env s0)) = trace s0 @ FetchTestData # t \<and>
     FetchTestData \<notin> set t \<and> 1 \<le> k \<and>
     invocations t =
       map (\<lambda>a. (a, fst (fetch_phase env s0))) (take k [''gzip'', ''deflate'', ''br'']) \<and>
     tables (console (snd (compareCompressions env s0))) = tables (console s0) @ T \<and>
     list_all (list_all (\<lambda>r. originalSize r = formatBytes (length (fst (fetch_phase env s0))))) T"
  using run_tests_summary [of env "fst (fetch_phase env s0)" "snd (fetch_phase env s0)"]
  by (simp add: compareCompressions_run_tests fetch_phase_trace fetch_phase_tables)

lemma gzip_fails_batch:
  "invocations (trace (snd (compareCompressions env_gzip_fails initial))) =
     [(''gzip'', sample_text)] \<and>
   tables (console (snd (compareCompressions env_gzip_fails initial))) = []"
proof -
  define s where "s = snd (fetch_phase env_gzip_fails initial)"
  have l: "listening s = {}"
    by (simp add: s_def fetch_phase_listening initial_def)
  have c: "compareCompressions env_gzip_fails initial = run_tests env_gzip_fails sample_text s"
    by (simp add: compareCompressions_run_tests fetch_phase_env_gzip_fails s_def)
  have g: "fst (gzip_run env_gzip_fails sample_text s) = Rejected (Error ''socket hang up'')"
    unfolding gzip_run_def by (rule env_gzip_fails_gzip [OF l])
  have i: "invocations (trace s) = []"
    by (simp add: s_def fetch_phase_invocations initial_def)
  have t: "tables (console s) = []"
    by (simp add: s_def fetch_phase_tables initial_def)
  show ?thesis
    unfolding c run_tests_cases g by (simp add: gzip_run_simps i t)
qed

text \<open>
  Claim C1, as the code has it. The three runs share one \<^verbatim>\<open>try\<close> block: the first
  run that rejects ends the batch. \<^verbatim>\<open>compareCompressions\<close> then logs
  \<open>Test failed:\<close> with the message, invokes the runner for no later codec and prints no
  table, also not the results of the runs that succeeded before.
\<close>

theorem first_rejection_ends_batch:
  assumes "fetch_phase env s0 = (d, s)"
  shows
   "(fst (gzip_run env d s) = Rejected e \<longrightarrow>
       fst (compareCompressions env s0) = Returned \<and>
       invocations (trace (snd (compareCompressions env s0))) =
         invocations (trace s0) @ [(''gzip'', d)] \<and>
       tables (console (snd (compareCompressions env s0))) = tables (console s0) \<and>
       last (console (snd (compareCompressions env s0))) =
         ErrorLog (''Test failed: '' @ message e)) \<and>
    (is_Resolved (fst (gzip_run env d s)) \<and> fst (deflate_run env d s) = Rejected e \<longrightarrow>
       fst (compareCompressions env s0) = Returned \<and>
       invocations (trace (snd (compareCompressions env s0))) =
         invocations (trace s0) @ [(''gzip'', d), (''deflate'', d)] \<and>
       tables (console (snd (compareCompressions env s0))) = tables (console s0) \<and>
       last (console (snd (compareCompressions env s0))) =
         ErrorLog (''Test failed: '' @ message e)) \<and>
    (is_Resolved (fst (gzip_run env d s)) \<and> is_Resolved (fst (deflate_run env d s)) \<and>
     fst (br_run env d s) = Rejected e \<longrightarrow>
       fst (compareCompressions env s0) = Returned \<and>
       invocations (trace (snd (compareCompressions env s0))) =
         invocations (trace s0) @ [(''gzip'', d), (''deflate'', d), (''br'', d)] \<and>
       tables (console (snd (compareCompressions env s0))) = tables (console s0) \<and>
       last (console (snd (compareCompressions env s0))) =
         ErrorLog (''Test failed: '' @ message e))"
proof -
  have c: "compareCompressions env s0 = run_tests env d s"
    using assms by (simp add: compareCompressions_run_tests)
  have i: "invocations (trace s) = invocations (trace s0)"
    using assms fetch_phase_invocations [of env s0] by simp
  have t: "tables (console s) = tables (console s0)"
    using assms fetch_phase_tables [of env s0] by simp
  show ?thesis
    unfolding c run_tests_cases
    by (auto simp add: gzip_run_simps deflate_run_simps br_run_simps i t
        split: outcome.splits)
qed

theorem first_rejection_ends_batch_witness:
  "fst (gzip_run env_gzip_fails sample_text (snd (fetch_phase env_gzip_fails initial))) =
     Rejected (Error ''socket hang up'') \<and>
   fst (compareCompressions env_gzip_fails initial) = Returned \<and>
   invocations (trace (snd (compareCompressions env_gzip_fails initial))) =
     [(''gzip'', sample_text)] \<and>
   tables (console (snd (compareCompressions env_gzip_fails initial))) = [] \<and>
   last (console (snd (compareCompressions env_gzip_fails initial))) =
     ErrorLog ''Test failed: socket hang up''"
proof -
  define s where "s = snd (fetch_phase env_gzip_fails initial)"
  have f: "fetch_phase env_gzip_fails initial = (sample_text, s)"
    using fetch_phase_env_gzip_fails [of initial] by (simp add: s_def prod_eq_iff)
  have l: "listening s = {}"
    by (simp add: s_def fetch_phase_listening initial_def)
  have g: "fst (gzip_run env_gzip_fails sample_text s) = Rejected (Error ''socket hang up'')"
    unfolding gzip_run_def by (rule env_gzip_fails_gzip [OF l])
  show ?thesis
    using first_rejection_ends_batch [OF f, of "Error ''socket hang up''"] g
    by (simp add: initial_def s_def)
qed

text \<open>
  Claim C1 as stated fails: when the request of the gzip run is rejected, in an
  environment where the deflate and the brotli run would resolve, the runner is invoked
  for neither of them and no results are printed.
\<close>

theorem batch_aborts_counterexample:
  "fst (gzip_run env_gzip_fails sample_text (snd (fetch_phase env_gzip_fails initial))) =
     Rejected (Error ''socket hang up'') \<and>
   is_Resolved (fst (testCompression env_gzip_fails ''deflate'' sample_text
     (snd (fetch_phase env_gzip_fails initial)))) \<and>
   is_Resolved (fst (testCompression env_gzip_fails ''br'' sample_text
     (snd (fetch_phase env_gzip_fails initial)))) \<and>
   (''deflate'', sample_text) \<notin>
     set (invocations (trace (snd (compareCompressions env_gzip_fails initial)))) \<and>
   (''br'', sample_text) \<notin>
     set (invocations (trace (snd (compareCompressions env_gzip_fails initial)))) \<and>
   tables (console (snd (compareCompressions env_gzip_fails initial))) = []"
proof -
  have l: "listening (snd (fetch_phase env_gzip_fails initial)) = {}"
    by (simp add: fetch_phase_listening initial_def)
  show ?thesis
    using env_gzip_fails_gzip [OF l, of sample_text]
      env_gzip_fails_other [OF l, of "''deflate''" sample_text]
      env_gzip_fails_other [OF l, of "''br''" sample_text]
    by (simp add: gzip_fails_batch gzip_run_def)
qed

text \<open>
  Claim C7. When the three runs resolve, with \<open>r1\<close>, \<open>r2\<close> and \<open>r3\<close>,
  \<^verbatim>\<open>compareCompressions\<close> ends by printing the table of exactly these three results
  in the order of the invocations (gzip, deflate, br); under a monotonic clock the
  \<open>timeTaken\<close> of each is an unsigned decimal number followed by \<open>ms\<close>.
\<close>

theorem three_results_in_order:
  assumes "fetch_phase env s0 = (d, s)"
    and "fst (gzip_run env d s) = Resolved r1"
    and "fst (deflate_run env d s) = Resolved r2"
    and "fst (br_run env d s) = Resolved r3"
    and "\<forall>n. hrtime env n \<le> hrtime env (Suc n)"
  shows "fst (compareCompressions env s0) = Returned \<and>
    last (console (snd (compareCompressions env s0))) = Table [r1, r2, r3] \<and>
    tables (console (snd (compareCompressions env s0))) = tables (console s0) @ [[r1, r2, r3]] \<and>
    invocations (trace (snd (compareCompressions env s0))) =
      invocations (trace s0) @ [(''gzip'', d), (''deflate'', d), (''br'', d)] \<and>
    length [r1, r2, r3] = 3 \<and>
    list_all (\<lambda>r. \<exists>t. timeTaken r = t @ ''ms'' \<and> unsigned_decimal t) [r1, r2, r3]"
proof -
  have c: "compareCompressions env s0 = run_tests env d s"
    using assms(1) by (simp add: compareCompressions_run_tests)
  have i: "invocations (trace s) = invocations (trace s0)"
    using assms(1) fetch_phase_invocations [of env s0] by simp
  have t: "tables (console s) = tables (console s0)"
    using assms(1) fetch_phase_tables [of env s0] by simp
  have r: "run_tests env d s =
      (Returned, print (Table [r1, r2, r3])
         (print (Log ([CHR 0x0A] @ ''Final Results:'')) (snd (br_run env d s))))"
    using assms(2-4) by (simp add: run_tests_cases)
  have m: "hrtime env (clock_reads x) \<le> hrtime env (Suc (clock_reads x))" for x
    using assms(5) by simp
  have t1: "\<exists>t. timeTaken r1 = t @ ''ms'' \<and> unsigned_decimal t"
    using assms(2) m unfolding gzip_run_def by (rule testCompression_timeTaken_unsigned)
  have t2: "\<exists>t. timeTaken r2 = t @ ''ms'' \<and> unsigned_decimal t"
    using assms(3) m unfolding deflate_run_def by (rule testCompression_timeTaken_unsigned)
  have t3: "\<exists>t. timeTaken r3 = t @ ''ms'' \<and> unsigned_decimal t"
    using assms(4) m unfolding br_run_def by (rule testCompression_timeTaken_unsigned)
  show ?thesis
    unfolding c r using t1 t2 t3 by (simp add: br_run_simps i t)
qed

theorem three_results_in_order_witness:
  "last (console (snd (compareCompressions env_ok initial))) =
     Table
      [\<lparr>algorithm = ''gzip'', originalSize = ''18 Bytes'', compressedSize = ''2 Bytes'',
        compressionRatio = ''88.89%'', timeTaken = ''2.50ms'', savingsInMB = ''0.00 MB''\<rparr>,
       \<lparr>algorithm = ''deflate'', originalSize = ''18 Bytes'', compressedSize = ''2 Bytes'',
        compressionRatio = ''88.89%'', timeTaken = ''2.50ms'', savingsInMB = ''0.00 MB''\<rparr>,
       \<lparr>algorithm = ''br'', originalSize = ''18 Bytes'', compressedSize = ''2 Bytes'',
        compressionRatio = ''88.89%'', timeTaken = ''2.50ms'', savingsInMB = ''0.00 MB''\<rparr>] \<and>
   fst (compareCompressions env_ok initial) = Returned \<and>
   invocations (trace (snd (compareCompressions env_ok initial))) =
     [(''gzip'', sample_text), (''deflate'', sample_text), (''br'', sample_text)]"
proof -
  define s where "s = snd (fetch_phase env_ok initial)"
  have f: "fetch_phase env_ok initial = (sample_text, s)"
    using fetch_phase_env_ok [of initial] by (simp add: s_def prod_eq_iff)
  have l0: "listening s = {}"
    by (simp add: s_def fetch_phase_listening initial_def)
  have l1: "listening (snd (gzip_run env_ok sample_text s)) = {}"
    by (simp add: gzip_run_def testCompression_listening l0)
  have l2: "listening (snd (deflate_run env_ok sample_text s)) = {}"
    by (simp add: deflate_run_def testCompression_listening l1)
  have r1: "fst (gzip_run env_ok sample_text s) =
      Resolved \<lparr>algorithm = ''gzip'', originalSize = ''18 Bytes'', compressedSize = ''2 Bytes'',
        compressionRatio = ''88.89%'', timeTaken = ''2.50ms'', savingsInMB = ''0.00 MB''\<rparr>"
    unfolding gzip_run_def by (rule env_ok_run [OF l0]) simp
  have r2: "fst (deflate_run env_ok sample_text s) =
      Resolved \<lparr>algorithm = ''deflate'', originalSize = ''18 Bytes'', compressedSize = ''2 Bytes'',
        compressionRatio = ''88.89%'', timeTaken = ''2.50ms'', savingsInMB = ''0.00 MB''\<rparr>"
    unfolding deflate_run_def by (rule env_ok_run [OF l1]) simp
  have r3: "fst (br_run env_ok sample_text s) =
      Resolved \<lparr>algorithm = ''br'', originalSize = ''18 Bytes'', compressedSize = ''2 Bytes'',
        compressionRatio = ''88.89%'', timeTaken = ''2.50ms'', savingsInMB = ''0.00 MB''\<rparr>"
    unfolding br_run_def by (rule env_ok_run [OF l2]) simp
  have m: "\<forall>n. hrtime env_ok n \<le> hrtime env_ok (Suc n)"
    by (simp add: env_ok_def)
  show ?thesis
    using three_results_in_order [OF f r1 r2 r3 m] by (simp add: initial_def)
qed

text \<open>
  Claim C8, as the code has it. In a run of \<^verbatim>\<open>compareCompressions\<close> the provider is
  called once, before anything else; every invocation of the runner that follows
  receives the payload it returned, and every result printed records the same
  \<open>originalSize\<close>.
\<close>

theorem payload_fetched_once_and_shared:
  "\<exists>t k T. trace (snd (compareCompressions env s0)) = trace s0 @ FetchTestData # t \<and>
      FetchTestData \<notin> set t \<and> 1 \<le> k \<and>
      invocations t =
        map (\<lambda>a. (a, fst (fetch_phase env s0))) (take k [''gzip'', ''deflate'', ''br'']) \<and>
      tables (console (snd (compareCompressions env s0))) = tables (console s0) @ T \<and>
      list_all (list_all (\<lambda>r. originalSize r = formatBytes (length (fst (fetch_phase env s0))))) T"
  by (rule compareCompressions_summary)

theorem payload_fetched_once_and_shared_witness:
  "\<exists>t k T. trace (snd (compareCompressions env_ok initial)) = FetchTestData # t \<and>
      FetchTestData \<notin> set t \<and> 1 \<le> k \<and>
      invocations t = map (\<lambda>a. (a, sample_text)) (take k [''gzip'', ''deflate'', ''br'']) \<and>
      tables (console (snd (compareCompressions env_ok initial))) = T \<and>
      list_all (list_all (\<lambda>r. originalSize r = formatBytes (length sample_text))) T"
  using payload_fetched_once_and_shared [of env_ok initial]
  by (simp add: fetch_phase_env_ok initial_def)

text \<open>
  Claim C8 as stated fails in its last part: the payload is not the only state the
  invocations share. Every request goes through the axios client of the module, and
  what an earlier invocation left there decides the next one. Where a request over a
  connection kept from an earlier run fails, the gzip run resolves and leaves its
  request to port 3000 in the client; the deflate run, drawing port 3000 again, is
  rejected, although the same invocation resolves in the same state with a client that
  has sent nothing.
\<close>

theorem shared_client_counterexample:
  "is_Resolved (fst (gzip_run env_stale_connection sample_text initial)) \<and>
   client (snd (gzip_run env_stale_connection sample_text initial)) = [3000] \<and>
   fst (deflate_run env_stale_connection sample_text initial) =
     Rejected (Error ''socket hang up'') \<and>
   is_Resolved (fst (testCompression env_stale_connection ''deflate'' sample_text
     ((snd (gzip_run env_stale_connection sample_text initial))\<lparr>client := []\<rparr>)))"
proof -
  let ?s1 = "snd (gzip_run env_stale_connection sample_text initial)"
  have g: "is_Resolved (fst (gzip_run env_stale_connection sample_text initial))"
    unfolding gzip_run_def by (rule env_stale_connection_fresh) (simp_all add: initial_def)
  have n: "\<not> is_Crashed (fst (testCompression env_stale_connection ''gzip'' sample_text initial))"
    using g unfolding gzip_run_def
    by (cases "fst (testCompression env_stale_connection ''gzip'' sample_text initial)")
      simp_all
  have p: "chosen_port env_stale_connection initial = 3000"
    by (simp add: chosen_port_def env_stale_connection_def env_ok_def initial_def)
  have c: "client ?s1 = [3000]"
    unfolding gzip_run_def testCompression_client [OF n] p by (simp add: initial_def)
  have l: "listening ?s1 = {}"
    by (simp add: gzip_run_def testCompression_listening initial_def)
  have d: "fst (deflate_run env_stale_connection sample_text initial) =
      Rejected (Error ''socket hang up'')"
    unfolding deflate_run_def using l c by (rule env_stale_connection_stale)
  have f: "is_Resolved (fst (testCompression env_stale_connection ''deflate'' sample_text
      (?s1\<lparr>client := []\<rparr>)))"
    by (rule env_stale_connection_fresh) (simp_all add: l)
  show ?thesis
    using g c d f by simp
qed

text \<open>
  Claim C6, as the code has it. When none of the remote sources answers, \<^verbatim>\<open>fetchTestData\<close> returns the
  output of the generator for 5 MiB: a payload of at least \<open>5 * 1024 * 1024\<close> code
  units, hence not empty. \<^verbatim>\<open>compareCompressions\<close> goes on to invoke the runner with
  this payload, for gzip first and for all three codecs unless the gzip or the deflate
  run fails.
\<close>

theorem fallback_payload:
  assumes "list_all (\<lambda>url. isl (remote_get env url)) urls"
  shows "5 * 1024 * 1024 \<le> length (fst (fetchTestData env s)) \<and>
     fst (fetchTestData env s) \<noteq> [] \<and>
     5 * 1024 * 1024 \<le> length (fst (fetch_phase env s)) \<and>
     (\<exists>k\<ge>1. invocations (trace (snd (compareCompressions env s))) =
        invocations (trace s) @
        map (\<lambda>a. (a, fst (fetch_phase env s))) (take k [''gzip'', ''deflate'', ''br''])) \<and>
     (is_Resolved (fst (gzip_run env (fst (fetch_phase env s)) (snd (fetch_phase env s)))) \<and>
      is_Resolved (fst (deflate_run env (fst (fetch_phase env s)) (snd (fetch_phase env s)))) \<longrightarrow>
        invocations (trace (snd (compareCompressions env s))) =
          invocations (trace s) @
          map (\<lambda>a. (a, fst (fetch_phase env s))) [''gzip'', ''deflate'', ''br''])"
proof -
  have len: "5 * 1024 * 1024 \<le> length (fst (fetchTestData env s'))" for s'
  proof -
    obtain s'' where "fetchTestData env s' = generateCompressedTestData env (5 * 1024 * 1024) s''"
      using fetchTestData_fallback [OF assms] by blast
    then show ?thesis
      using generate_loop_reaches_size [of "5 * 1024 * 1024" "random env" "[]" "randoms s''"]
      by (simp add: generateCompressedTestData_def case_prod_beta)
  qed
  have "5 * 1024 * 1024 \<le> length (fst (fetchTestData env s))"
    by (rule len)
  then have ne: "fst (fetchTestData env s) \<noteq> []"
    by (cases "fst (fetchTestData env s)") simp_all
  have ph: "5 * 1024 * 1024 \<le> length (fst (fetch_phase env s))"
    unfolding fetch_phase_payload by (rule len)
  obtain t k where
    "trace (snd (compareCompressions env s)) = trace s @ FetchTestData # t"
    "1 \<le> k"
    "invocations t = map (\<lambda>a. (a, fst (fetch_phase env s))) (take k [''gzip'', ''deflate'', ''br''])"
    using compareCompressions_summary [of env s] by blast
  then have some: "\<exists>k\<ge>1. invocations (trace (snd (compareCompressions env s))) =
        invocations (trace s) @
        map (\<lambda>a. (a, fst (fetch_phase env s))) (take k [''gzip'', ''deflate'', ''br''])"
    by (intro exI [of _ k]) simp
  have every: "invocations (trace (snd (compareCompressions env s))) =
          invocations (trace s) @
          map (\<lambda>a. (a, fst (fetch_phase env s))) [''gzip'', ''deflate'', ''br'']"
    if "is_Resolved (fst (gzip_run env (fst (fetch_phase env s)) (snd (fetch_phase env s))))"
      and "is_Resolved (fst (deflate_run env (fst (fetch_phase env s)) (snd (fetch_phase env s))))"
    using all_invoked [OF that]
    by (simp add: compareCompressions_run_tests fetch_phase_invocations)
  show ?thesis
    using len [of s] ne ph some every by blast
qed

theorem fallback_payload_witness:
  "remote_get env_offline (urls ! 0) = Inl (Error ''timeout of 10000ms exceeded'') \<and>
   remote_get env_offline (urls ! 1) = Inl (Error ''timeout of 10000ms exceeded'') \<and>
   5 * 1024 * 1024 \<le> length (fst (fetchTestData env_offline initial)) \<and>
   fst (fetchTestData env_offline initial) \<noteq> [] \<and>
   invocations (trace (snd (compareCompressions env_offline initial))) =
     map (\<lambda>a. (a, fst (fetch_phase env_offline initial))) [''gzip'', ''deflate'', ''br'']"
proof -
  let ?d = "fst (fetch_phase env_offline initial)"
  let ?s = "snd (fetch_phase env_offline initial)"
  have a: "list_all (\<lambda>url. isl (remote_get env_offline url)) urls"
    by (simp add: env_offline_def urls_def)
  have l0: "listening ?s = {}"
    by (simp add: fetch_phase_listening initial_def)
  have g: "is_Resolved (fst (gzip_run env_offline ?d ?s))"
    unfolding gzip_run_def by (rule env_offline_resolved [OF l0])
  have l1: "listening (snd (gzip_run env_offline ?d ?s)) = {}"
    by (simp add: gzip_run_def testCompression_listening l0)
  have f: "is_Resolved (fst (deflate_run env_offline ?d ?s))"
    unfolding deflate_run_def by (rule env_offline_resolved [OF l1])
  show ?thesis
    using fallback_payload [OF a, of initial] g f
    by (simp add: env_offline_def initial_def)
qed

text \<open>
  Claim C6 as stated fails in its last part: after the fallback the orchestrator need
  not run all codecs. With no remote source answering and the request of the gzip run
  failing, \<^verbatim>\<open>compareCompressions\<close> invokes the runner for gzip on the generated
  payload and for no other codec, and prints no table.
\<close>

theorem fallback_then_abort_counterexample:
  "list_all (\<lambda>url. isl (remote_get env_offline_gzip_fails url)) urls \<and>
   5 * 1024 * 1024 \<le> length (fst (fetch_phase env_offline_gzip_fails initial)) \<and>
   invocations (trace (snd (compareCompressions env_offline_gzip_fails initial))) =
     [(''gzip'', fst (fetch_phase env_offline_gzip_fails initial))] \<and>
   (''deflate'', fst (fetch_phase env_offline_gzip_fails initial)) \<notin>
     set (invocations (trace (snd (compareCompressions env_offline_gzip_fails initial)))) \<and>
   (''br'', fst (fetch_phase env_offline_gzip_fails initial)) \<notin>
     set (invocations (trace (snd (compareCompressions env_offline_gzip_fails initial)))) \<and>
   tables (console (snd (compareCompressions env_offline_gzip_fails initial))) = []"
proof -
  let ?d = "fst (fetch_phase env_offline_gzip_fails initial)"
  let ?s = "snd (fetch_phase env_offline_gzip_fails initial)"
  have a: "list_all (\<lambda>url. isl (remote_get env_offline_gzip_fails url)) urls"
    by (simp add: env_offline_gzip_fails_def urls_def)
  have len: "5 * 1024 * 1024 \<le> length ?d"
  proof -
    obtain s' s'' where "fetchTestData env_offline_gzip_fails s' =
        generateCompressedTestData env_offline_gzip_fails (5 * 1024 * 1024) s''"
        and "?d = fst (fetchTestData env_offline_gzip_fails s')"
      using fetchTestData_fallback [OF a] fetch_phase_payload by metis
    then show ?thesis
      using generate_loop_reaches_size [of "5 * 1024 * 1024"
          "random env_offline_gzip_fails" "[]" "randoms s''"]
      by (simp add: generateCompressedTestData_def case_prod_beta)
  qed
  have l: "listening ?s = {}"
    by (simp add: fetch_phase_listening initial_def)
  have g: "fst (gzip_run env_offline_gzip_fails ?d ?s) = Rejected (Error ''socket hang up'')"
    unfolding gzip_run_def by (rule env_offline_gzip_fails_gzip [OF l])
  have i: "invocations (trace ?s) = []"
    by (simp add: fetch_phase_invocations initial_def)
  have t: "tables (console ?s) = []"
    by (simp add: fetch_phase_tables initial_def)
  have "invocations (trace (snd (compareCompressions env_offline_gzip_fails initial))) =
      [(''gzip'', ?d)] \<and>
    tables (console (snd (compareCompressions env_offline_gzip_fails initial))) = []"
    unfolding compareCompressions_run_tests run_tests_cases g
    by (simp add: gzip_run_simps i t)
  then show ?thesis
    using a len by simp
qed

end
